theory Spec2Isabelle
  imports Complex_Main
begin

section \<open>JavaScript numbers rendered as text\<close>

text \<open>
  Template literals such as \<^verbatim>\<open>`${message.type}-${message.timestamp}`\<close> and
  \<^verbatim>\<open>`rgb(${color.r}, ${color.g}, ${color.b})`\<close> turn a number into its decimal text.
  The numbers that reach these places are integers (millisecond timestamps, colour
  channels, rounded durations); for an integer below \<open>10^21\<close> in magnitude JavaScript
  prints the plain decimal digits, with a leading minus sign when negative.
\<close>

definition digit_char :: "nat \<Rightarrow> char" where
  "digit_char d = (''0123456789'' ! d)"

fun showNat :: "nat \<Rightarrow> string" where
  "showNat n = (if n < 10 then [digit_char n] else showNat (n div 10) @ [digit_char (n mod 10)])"

declare showNat.simps [simp del]

definition numberToString :: "int \<Rightarrow> string" where
  "numberToString i = (if i < 0 then CHR ''-'' # showNat (nat (- i)) else showNat (nat i))"

section \<open>Event bus (src/shared/lib/event-bus.js)\<close>

text \<open>
  A handler is a JavaScript function object; the listener sets compare handlers by
  identity, so a handler is modelled by an identifier. Calling a handler is recorded
  as an invocation \<open>(handler, data, type)\<close>: the two arguments of
  \<^verbatim>\<open>callback(message.data, message.type)\<close>. An exception thrown by a handler is caught
  and logged inside the loop, so every handler of the set is called.
\<close>

type_synonym handler = nat

record 'd message =
  msg_type :: string
  msg_data :: 'd
  msg_timestamp :: int

type_synonym 'd invocation = "handler \<times> 'd \<times> string"

text \<open>
  The bus object. \<open>listeners\<close> is the \<^verbatim>\<open>Map\<close> from an event type to a \<^verbatim>\<open>Set\<close> of
  handlers; a \<^verbatim>\<open>Set\<close> iterates in insertion order, so it is a list without
  repetition. \<open>messageHistory\<close> holds the keys of the \<^verbatim>\<open>Map\<close> used for
  deduplication. \<open>timers\<close> are the pending \<^verbatim>\<open>setTimeout\<close> callbacks, each with the time
  (in ms) at which it becomes due and the key it will delete.
\<close>

record bus =
  listeners :: "string \<rightharpoonup> handler list"
  messageHistory :: "string set"
  deduplicationWindow :: nat
  timers :: "(nat \<times> string) list"

definition newEventBus :: bus where
  "newEventBus = \<lparr> listeners = Map.empty, messageHistory = {}, deduplicationWindow = 100, timers = [] \<rparr>"

definition messageKey :: "'d message \<Rightarrow> string" where
  "messageKey m = msg_type m @ ''-'' @ numberToString (msg_timestamp m)"

text \<open>\<^verbatim>\<open>listeners.forEach(callback => callback(message.data, message.type))\<close>,
  guarded by \<^verbatim>\<open>if (listeners)\<close>.\<close>

definition dispatchTo :: "handler list option \<Rightarrow> 'd message \<Rightarrow> 'd invocation list" where
  "dispatchTo ls m =
     (case ls of
        None \<Rightarrow> []
      | Some hs \<Rightarrow> map (\<lambda>h. (h, msg_data m, msg_type m)) hs)"

text \<open>
  \<open>handleMessage now message bus\<close>: \<open>None\<close> is a null message, an empty \<open>msg_type\<close> a
  falsy type; both return at once. \<open>now\<close> is the time of the call, from which the
  cleanup timer counts. The result is the new bus and the handler calls made, in order.
\<close>

definition handleMessage :: "nat \<Rightarrow> 'd message option \<Rightarrow> bus \<Rightarrow> bus \<times> 'd invocation list" where
  "handleMessage now message b =
     (case message of
        None \<Rightarrow> (b, [])
      | Some m \<Rightarrow>
          if msg_type m = [] then (b, [])
          else if messageKey m \<in> messageHistory b then (b, [])
          else
            (b\<lparr> messageHistory := insert (messageKey m) (messageHistory b),
                timers := timers b @ [(now + deduplicationWindow b, messageKey m)] \<rparr>,
             dispatchTo (listeners b (msg_type m)) m @ dispatchTo (listeners b ''*'') m))"

text \<open>
  The event loop runs the cleanup callbacks that are due before it hands over the next
  message: every timer whose time has come deletes its key from the history. A timer
  never fires before its time.
\<close>

definition runTimers :: "nat \<Rightarrow> bus \<Rightarrow> bus" where
  "runTimers now b =
     b\<lparr> messageHistory := messageHistory b - snd ` set (filter (\<lambda>t. fst t \<le> now) (timers b)),
        timers := filter (\<lambda>t. \<not> fst t \<le> now) (timers b) \<rparr>"

text \<open>A message arriving at time \<open>now\<close>: due cleanups first, then \<open>handleMessage\<close>.\<close>

definition receive :: "nat \<Rightarrow> 'd message \<Rightarrow> bus \<Rightarrow> bus \<times> 'd invocation list" where
  "receive now m b = handleMessage now (Some m) (runTimers now b)"

text \<open>\<^verbatim>\<open>Set.prototype.add\<close> and \<^verbatim>\<open>Set.prototype.delete\<close> on an insertion-ordered set.\<close>

definition setAdd :: "'a \<Rightarrow> 'a list \<Rightarrow> 'a list" where
  "setAdd x xs = (if x \<in> set xs then xs else xs @ [x])"

definition setDelete :: "'a \<Rightarrow> 'a list \<Rightarrow> 'a list" where
  "setDelete x xs = filter (\<lambda>y. y \<noteq> x) xs"

text \<open>The body of the \<^verbatim>\<open>types.forEach\<close> loop of \<^verbatim>\<open>on\<close>, for one type.\<close>

definition onType :: "handler \<Rightarrow> string \<Rightarrow> bus \<Rightarrow> bus" where
  "onType callback ty b =
     (let hs = (case listeners b ty of None \<Rightarrow> [] | Some hs \<Rightarrow> hs)
      in b\<lparr> listeners := (listeners b)(ty \<mapsto> setAdd callback hs) \<rparr>)"

text \<open>\<open>on\<close> takes one type or an array of types; a single type is the singleton list.\<close>

definition on :: "string list \<Rightarrow> handler \<Rightarrow> bus \<Rightarrow> bus" where
  "on eventTypes callback b = fold (onType callback) eventTypes b"

definition offType :: "handler \<Rightarrow> string \<Rightarrow> bus \<Rightarrow> bus" where
  "offType callback ty b =
     (case listeners b ty of
        None \<Rightarrow> b
      | Some hs \<Rightarrow> b\<lparr> listeners := (listeners b)(ty \<mapsto> setDelete callback hs) \<rparr>)"

definition off :: "string list \<Rightarrow> handler \<Rightarrow> bus \<Rightarrow> bus" where
  "off eventTypes callback b = fold (offType callback) eventTypes b"

text \<open>How often a handler was called, and how many of the two dispatch passes of
  \<open>handleMessage\<close> (the type's own set, then the wildcard set) hold it.\<close>

definition invocations :: "handler \<Rightarrow> 'd invocation list \<Rightarrow> nat" where
  "invocations h calls = length (filter (\<lambda>c. fst c = h) calls)"

definition subscriptions :: "bus \<Rightarrow> string \<Rightarrow> handler \<Rightarrow> nat" where
  "subscriptions b ty h =
     (case listeners b ty of None \<Rightarrow> 0 | Some hs \<Rightarrow> if h \<in> set hs then 1 else 0) +
     (case listeners b ''*'' of None \<Rightarrow> 0 | Some hs \<Rightarrow> if h \<in> set hs then 1 else 0)"

text \<open>
  What holds of every bus built by the constructor and changed by \<open>on\<close>, \<open>off\<close>,
  \<open>handleMessage\<close> and the cleanup timers: listener sets have no repetition, and each
  pending cleanup belongs to a different key that is still in the history.
\<close>

definition bus_inv :: "bus \<Rightarrow> bool" where
  "bus_inv b \<longleftrightarrow>
     (\<forall>ty hs. listeners b ty = Some hs \<longrightarrow> distinct hs) \<and>
     distinct (map snd (timers b)) \<and>
     snd ` set (timers b) \<subseteq> messageHistory b"

text \<open>
  What can happen to a bus: a subscription, an unsubscription, or a message arriving at
  some time. \<open>run\<close> plays a history of such events on a new bus.
\<close>

datatype 'd bus_event =
    Subscribe "string list" handler
  | Unsubscribe "string list" handler
  | Arrive nat "'d message"

fun applyEvent :: "'d bus_event \<Rightarrow> bus \<Rightarrow> bus" where
  "applyEvent (Subscribe tys h) b = on tys h b"
| "applyEvent (Unsubscribe tys h) b = off tys h b"
| "applyEvent (Arrive now m) b = fst (receive now m b)"

definition run :: "'d bus_event list \<Rightarrow> bus" where
  "run evs = fold applyEvent evs newEventBus"

section \<open>Beat engine (src/shared/lib/theme-engine.js, class BeatEngine)\<close>

text \<open>
  Exceptions are values: \<open>TypeError\<close> is what the runtime throws when a property of
  \<^verbatim>\<open>null\<close> or \<^verbatim>\<open>undefined\<close> is read; \<open>CanvasError\<close> stands for whatever a canvas call
  throws (a null 2D context, a tainted canvas).
\<close>

datatype js_error = TypeError | CanvasError

text \<open>
  JavaScript numbers are modelled as real numbers: tempo, energy and the like are read
  exactly, without the rounding of IEEE doubles. A value that may be \<^verbatim>\<open>undefined\<close>,
  \<^verbatim>\<open>null\<close> or \<^verbatim>\<open>NaN\<close> is a \<open>real option\<close>, \<open>None\<close> standing for all three.
\<close>

datatype bus_ref = EventBusRef

text \<open>The handle returned by \<^verbatim>\<open>setInterval\<close>, remembering the delay it was armed with.\<close>

datatype timer = IntervalTimer "real option"

record 'f beatTick =
  tick_beatCount :: nat
  tick_bpm :: "real option"
  tick_beatInterval :: "real option"
  tick_audioFeatures :: "'f option"
  tick_timestamp :: nat

text \<open>A call \<^verbatim>\<open>eventBus.emit(type, payload)\<close>.\<close>

type_synonym 'f emitted = "string \<times> 'f beatTick"

record 'f beatEngine =
  eventBus :: "bus_ref option"
  bpm :: "real option"
  beatInterval :: "real option"
  beatTimerId :: "timer option"
  beatCount :: nat
  audioFeatures :: "'f option"
  isRunning :: bool

definition newBeatEngine :: "bus_ref option \<Rightarrow> 'f beatEngine" where
  "newBeatEngine bus =
     \<lparr> eventBus = bus, bpm = None, beatInterval = None, beatTimerId = None,
       beatCount = 0, audioFeatures = None, isRunning = False \<rparr>"

text \<open>
  \<open>emitBeat\<close>: the counter is incremented first; then \<^verbatim>\<open>this.eventBus.emit\<close> is called,
  which throws a \<open>TypeError\<close> when the bus reference is null (after \<open>destroy\<close>, or when
  the engine was built without a bus). The result is the engine and either the
  exception or the calls made on the bus.
\<close>

definition emitBeat :: "nat \<Rightarrow> 'f beatEngine \<Rightarrow> 'f beatEngine \<times> (js_error + 'f emitted list)" where
  "emitBeat now e =
     (let e1 = e\<lparr> beatCount := beatCount e + 1 \<rparr>
      in case eventBus e1 of
           None \<Rightarrow> (e1, Inl TypeError)
         | Some _ \<Rightarrow>
             (e1, Inr [(''beat:tick'',
                        \<lparr> tick_beatCount = beatCount e1, tick_bpm = bpm e1,
                          tick_beatInterval = beatInterval e1,
                          tick_audioFeatures = audioFeatures e1, tick_timestamp = now \<rparr>)]))"

definition stopBeat :: "'f beatEngine \<Rightarrow> 'f beatEngine" where
  "stopBeat e =
     (let e1 = (case beatTimerId e of None \<Rightarrow> e | Some _ \<Rightarrow> e\<lparr> beatTimerId := None \<rparr>)
      in e1\<lparr> isRunning := False, beatCount := 0 \<rparr>)"

text \<open>A number is falsy when it is missing, \<open>NaN\<close> or zero.\<close>

definition falsy :: "real option \<Rightarrow> bool" where
  "falsy v = (case v of None \<Rightarrow> True | Some x \<Rightarrow> x = 0)"

definition startBeat :: "nat \<Rightarrow> 'f beatEngine \<Rightarrow> 'f beatEngine \<times> (js_error + 'f emitted list)" where
  "startBeat now e =
     (if falsy (bpm e) then (e, Inr [])
      else if isRunning e then (e, Inr [])
      else
        (let e1 = e\<lparr> isRunning := True, beatCount := 0 \<rparr>
         in case emitBeat now e1 of
              (e2, Inl err) \<Rightarrow> (e2, Inl err)
            | (e2, Inr ms) \<Rightarrow> (e2\<lparr> beatTimerId := Some (IntervalTimer (beatInterval e2)) \<rparr>, Inr ms)))"

text \<open>The validation at the head of \<open>setBPM\<close>:
  \<^verbatim>\<open>if (!bpm || bpm <= 0 || bpm > 300) bpm = 120\<close>.\<close>

definition validateBPM :: "real option \<Rightarrow> real" where
  "validateBPM v =
     (case v of
        None \<Rightarrow> 120
      | Some x \<Rightarrow> if x = 0 \<or> x \<le> 0 \<or> x > 300 then 120 else x)"

definition setBPM :: "nat \<Rightarrow> real option \<Rightarrow> 'f \<Rightarrow> 'f beatEngine \<Rightarrow> 'f beatEngine \<times> (js_error + 'f emitted list)" where
  "setBPM now v features e =
     (let bpm' = validateBPM v;
          e1 = e\<lparr> bpm := Some bpm', audioFeatures := Some features,
                  beatInterval := Some (60000 / bpm') \<rparr>
      in startBeat now (stopBeat e1))"

text \<open>The \<^verbatim>\<open>setInterval\<close> callback, each time the timer fires.\<close>

definition timerFires :: "nat \<Rightarrow> 'f beatEngine \<Rightarrow> 'f beatEngine \<times> (js_error + 'f emitted list)" where
  "timerFires now e = (case beatTimerId e of None \<Rightarrow> (e, Inr []) | Some _ \<Rightarrow> emitBeat now e)"

definition destroy :: "'f beatEngine \<Rightarrow> 'f beatEngine" where
  "destroy e = (stopBeat e)\<lparr> eventBus := None \<rparr>"

section \<open>Colour extractor (src/shared/lib/theme-engine.js, extractColors and helpers)\<close>

record rgb =
  rgb_r :: int
  rgb_g :: int
  rgb_b :: int

record palette =
  dominant :: rgb
  colorList :: "rgb list"

text \<open>\<^verbatim>\<open>Math.round\<close>: the nearest integer, halves upwards.\<close>

definition mathRound :: "real \<Rightarrow> int" where
  "mathRound x = \<lfloor>x + 1 / 2\<rfloor>"

definition colorDistance :: "rgb \<Rightarrow> rgb \<Rightarrow> real" where
  "colorDistance c1 c2 =
     sqrt (real_of_int ((rgb_r c1 - rgb_r c2)\<^sup>2 + (rgb_g c1 - rgb_g c2)\<^sup>2 + (rgb_b c1 - rgb_b c2)\<^sup>2))"

definition calculateVibrancy :: "rgb \<Rightarrow> real" where
  "calculateVibrancy color =
     (let mx = max (rgb_r color) (max (rgb_g color) (rgb_b color));
          mn = min (rgb_r color) (min (rgb_g color) (rgb_b color));
          saturation = (if mx = 0 then 0 else real_of_int (mx - mn) / real_of_int mx);
          brightness = real_of_int (rgb_r color + rgb_g color + rgb_b color) / (3 * 255)
      in saturation * brightness)"

text \<open>
  The inner \<^verbatim>\<open>centroids.forEach\<close> of the assignment step: \<open>minDist\<close> starts at
  \<^verbatim>\<open>Infinity\<close> (\<open>None\<close>), \<open>closestCentroid\<close> at 0, and a centroid wins only when
  strictly nearer than the best so far.
\<close>

definition nearer :: "real \<Rightarrow> real option \<Rightarrow> bool" where
  "nearer distance minDist = (case minDist of None \<Rightarrow> True | Some m \<Rightarrow> distance < m)"

fun closestFrom :: "rgb \<Rightarrow> (nat \<times> rgb) list \<Rightarrow> real option \<times> nat \<Rightarrow> real option \<times> nat" where
  "closestFrom color [] acc = acc"
| "closestFrom color ((index, centroid) # rest) (minDist, closestCentroid) =
     (if nearer (colorDistance color centroid) minDist
      then closestFrom color rest (Some (colorDistance color centroid), index)
      else closestFrom color rest (minDist, closestCentroid))"

definition closestCentroid :: "rgb \<Rightarrow> rgb list \<Rightarrow> nat" where
  "closestCentroid color centroids = snd (closestFrom color (enumerate 0 centroids) (None, 0))"

text \<open>
  The outer \<^verbatim>\<open>colors.forEach\<close>: \<^verbatim>\<open>clusters[closestCentroid].push(color)\<close>. When the
  index has no cluster the read gives \<^verbatim>\<open>undefined\<close> and \<^verbatim>\<open>.push\<close> throws.
\<close>

fun assignClusters :: "rgb list \<Rightarrow> rgb list \<Rightarrow> rgb list list \<Rightarrow> js_error + rgb list list" where
  "assignClusters [] centroids clusters = Inr clusters"
| "assignClusters (color # rest) centroids clusters =
     (let i = closestCentroid color centroids
      in if i < length clusters
         then assignClusters rest centroids (clusters[i := clusters ! i @ [color]])
         else Inl TypeError)"

text \<open>
  The new centroid of one cluster. An empty cluster takes \<^verbatim>\<open>centroids[0]\<close>; clusters
  exist only when \<open>k \<ge> 1\<close>, and then there are \<open>k\<close> centroids, so the read is in range.
\<close>

definition updateCentroid :: "rgb list \<Rightarrow> rgb list \<Rightarrow> rgb" where
  "updateCentroid centroids cluster =
     (if cluster = [] then hd centroids
      else
        \<lparr> rgb_r = mathRound (real_of_int (sum_list (map rgb_r cluster)) / real (length cluster)),
          rgb_g = mathRound (real_of_int (sum_list (map rgb_g cluster)) / real (length cluster)),
          rgb_b = mathRound (real_of_int (sum_list (map rgb_b cluster)) / real (length cluster)) \<rparr>)"

text \<open>The iteration loop, \<open>n\<close> being the iterations still allowed.\<close>

fun kMeansLoop :: "nat \<Rightarrow> rgb list \<Rightarrow> nat \<Rightarrow> rgb list \<Rightarrow> js_error + rgb list" where
  "kMeansLoop 0 colors k centroids = Inr centroids"
| "kMeansLoop (Suc n) colors k centroids =
     (case assignClusters colors centroids (replicate k []) of
        Inl err \<Rightarrow> Inl err
      | Inr clusters \<Rightarrow>
          (let newCentroids = map (updateCentroid centroids) clusters;
               converged = list_all (\<lambda>(centroid, old). colorDistance centroid old < 5)
                             (zip newCentroids centroids)
           in if converged then Inr newCentroids else kMeansLoop n colors k newCentroids))"

text \<open>
  \<open>kMeansClustering colors k\<close> with the default \<open>maxIterations = 10\<close>. The seeds are
  \<^verbatim>\<open>colors[i * step]\<close> for \<open>i < k\<close>; past the first test \<open>k < length colors\<close>, so
  \<open>step \<ge> 1\<close> and \<open>i * step < length colors\<close> whenever \<open>k \<ge> 1\<close>, and for \<open>k = 0\<close>
  there is no seed at all.
\<close>

definition kMeansClustering :: "rgb list \<Rightarrow> nat \<Rightarrow> js_error + rgb list" where
  "kMeansClustering colors k =
     (if length colors \<le> k then Inr colors
      else
        (let step = length colors div k;
             centroids = map (\<lambda>i. colors ! (i * step)) [0..<k]
         in kMeansLoop 10 colors k centroids))"

text \<open>
  One pixel of the canvas: red, green, blue and alpha, each a byte. The image data of
  the source is the flat array of these quadruples.
\<close>

type_synonym pixel = "nat \<times> nat \<times> nat \<times> nat"

definition isVibrant :: "pixel \<Rightarrow> bool" where
  "isVibrant p =
     (case p of (r, g, b, a) \<Rightarrow>
        if a < 128 then False
        else
          (let brightness = real (r + g + b) / 3;
               mx = max r (max g b);
               mn = min r (min g b);
               saturation = (if mx = 0 then 0 else real (mx - mn) / real mx)
           in brightness > 30 \<and> brightness < 225 \<and> saturation > 2 / 10))"

definition collectColors :: "pixel list \<Rightarrow> rgb list" where
  "collectColors pixels =
     map (\<lambda>(r, g, b, a). \<lparr> rgb_r = int r, rgb_g = int g, rgb_b = int b \<rparr>) (filter isVibrant pixels)"

definition fallbackPalette :: palette where
  "fallbackPalette =
     \<lparr> dominant = \<lparr> rgb_r = 139, rgb_g = 92, rgb_b = 246 \<rparr>,
       colorList = [\<lparr> rgb_r = 139, rgb_g = 92, rgb_b = 246 \<rparr>,
                    \<lparr> rgb_r = 236, rgb_g = 72, rgb_b = 153 \<rparr>,
                    \<lparr> rgb_r = 6, rgb_g = 182, rgb_b = 212 \<rparr>] \<rparr>"

text \<open>
  What the browser does with the image is the input: either loading fails
  (\<^verbatim>\<open>img.onerror\<close>), or it succeeds and the canvas calls of \<^verbatim>\<open>img.onload\<close> either throw
  or hand over the pixels of the scaled image.
\<close>

datatype canvas = CanvasThrows js_error | ImageData "pixel list"

datatype image = LoadError | Loaded canvas

text \<open>
  \<open>extractColors image colorCount\<close>: \<open>Inr\<close> is a promise resolved with a palette,
  \<open>Inl\<close> a promise rejected with the exception caught in \<^verbatim>\<open>img.onload\<close>. The sort is
  stable and descending in vibrancy. Vibrancy is compared exactly here; the source
  compares doubles, so colours whose exact vibrancies are equal, or closer than the
  rounding error, can come out in the other order there. \<open>palette[0]\<close> exists: the clustering returns an
  empty list only for \<open>k = 0\<close>, where it throws instead.
\<close>

definition extractColors :: "image \<Rightarrow> nat \<Rightarrow> js_error + palette" where
  "extractColors img colorCount =
     (case img of
        LoadError \<Rightarrow> Inr fallbackPalette
      | Loaded (CanvasThrows err) \<Rightarrow> Inl err
      | Loaded (ImageData pixels) \<Rightarrow>
          (let colors = collectColors pixels
           in if colors = [] then Inr fallbackPalette
              else
                (case kMeansClustering colors (min colorCount (length colors)) of
                   Inl err \<Rightarrow> Inl err
                 | Inr clustered \<Rightarrow>
                     (let sorted = sort_key (\<lambda>c. - calculateVibrancy c) clustered
                      in Inr \<lparr> dominant = hd sorted, colorList = sorted \<rparr>))))"

definition rgbToString :: "rgb \<Rightarrow> string" where
  "rgbToString color =
     ''rgb('' @ numberToString (rgb_r color) @ '', '' @ numberToString (rgb_g color) @ '', '' @
     numberToString (rgb_b color) @ '')''"

section \<open>Theme engine (src/shared/lib/theme-engine.js, class ThemeEngine)\<close>

subsection \<open>Strings\<close>

text \<open>
  \<^verbatim>\<open>toLowerCase\<close>, \<^verbatim>\<open>trim\<close> and \<^verbatim>\<open>includes\<close> on strings of bytes: the letters A to Z are
  lowered, and blank, tab, line feed, vertical tab, form feed and carriage return are
  the white space that \<open>trim\<close> removes at both ends. Letters and white space outside
  ASCII (the no-break space U+00A0, for one, which the source's \<open>trim\<close> also removes)
  are outside this model: they are left as they are.
\<close>

definition lowerChar :: "char \<Rightarrow> char" where
  "lowerChar c =
     (case map_of (zip ''ABCDEFGHIJKLMNOPQRSTUVWXYZ'' ''abcdefghijklmnopqrstuvwxyz'') c of
        None \<Rightarrow> c
      | Some l \<Rightarrow> l)"

definition toLowerCase :: "string \<Rightarrow> string" where
  "toLowerCase s = map lowerChar s"

definition isSpace :: "char \<Rightarrow> bool" where
  "isSpace c \<longleftrightarrow> c \<in> set [CHR '' '', CHR 0x09, CHR 0x0A, CHR 0x0B, CHR 0x0C, CHR 0x0D]"

definition trim :: "string \<Rightarrow> string" where
  "trim s = rev (dropWhile isSpace (rev (dropWhile isSpace s)))"

fun startsWith :: "string \<Rightarrow> string \<Rightarrow> bool" where
  "startsWith s [] = True"
| "startsWith [] (c # cs) = False"
| "startsWith (d # ds) (c # cs) = (d = c \<and> startsWith ds cs)"

fun stringIncludes :: "string \<Rightarrow> string \<Rightarrow> bool" where
  "stringIncludes [] sub = (sub = [])"
| "stringIncludes (d # ds) sub = (startsWith (d # ds) sub \<or> stringIncludes ds sub)"

subsection \<open>Genre tables\<close>

record color_set =
  primary :: rgb
  secondary :: rgb
  accent :: rgb

record effects_preset =
  glowIntensity :: string
  animationSpeed :: string
  blurStrength :: string

record genre_theme =
  name :: string
  baseColors :: color_set
  effects :: effects_preset

text \<open>
  \<open>GENRE_THEMES\<close> is a module-level object whose entries are objects themselves, so
  code holding a reference to an entry can write to it. The table is therefore part of
  the state: functions take the current table and return the table they leave behind.
  This is its initial value.
\<close>

type_synonym genre_table = "string \<rightharpoonup> genre_theme"

definition mkGenre :: "string \<Rightarrow> (int \<times> int \<times> int) \<Rightarrow> (int \<times> int \<times> int) \<Rightarrow> (int \<times> int \<times> int) \<Rightarrow>
    string \<Rightarrow> string \<Rightarrow> string \<Rightarrow> genre_theme" where
  "mkGenre n p s a glow speed blur =
     (case (p, s, a) of ((pr, pg, pb), (sr, sg, sb), (ar, ag, ab)) \<Rightarrow>
        \<lparr> name = n,
          baseColors = \<lparr> primary = \<lparr> rgb_r = pr, rgb_g = pg, rgb_b = pb \<rparr>,
                         secondary = \<lparr> rgb_r = sr, rgb_g = sg, rgb_b = sb \<rparr>,
                         accent = \<lparr> rgb_r = ar, rgb_g = ag, rgb_b = ab \<rparr> \<rparr>,
          effects = \<lparr> glowIntensity = glow, animationSpeed = speed, blurStrength = blur \<rparr> \<rparr>)"

definition GENRE_THEMES :: genre_table where
  "GENRE_THEMES = map_of
     [(''trance'', mkGenre ''Ethereal Trance'' (139, 92, 246) (236, 72, 153) (6, 182, 212) ''30px'' ''2s'' ''12px''),
      (''hardcore'', mkGenre ''Hardcore Energy'' (239, 68, 68) (249, 115, 22) (251, 191, 36) ''35px'' ''0.5s'' ''8px''),
      (''hardstyle'', mkGenre ''Hardstyle Power'' (239, 68, 68) (249, 115, 22) (251, 191, 36) ''32px'' ''0.6s'' ''10px''),
      (''techno'', mkGenre ''Techno Minimal'' (59, 130, 246) (139, 92, 246) (236, 72, 153) ''20px'' ''1.2s'' ''10px''),
      (''house'', mkGenre ''House Groove'' (16, 185, 129) (6, 182, 212) (139, 92, 246) ''22px'' ''1.5s'' ''10px''),
      (''dnb'', mkGenre ''Drum & Bass'' (236, 72, 153) (6, 182, 212) (251, 191, 36) ''25px'' ''0.8s'' ''10px''),
      (''default'', mkGenre ''Default'' (139, 92, 246) (236, 72, 153) (6, 182, 212) ''20px'' ''1s'' ''10px'')]"

definition GENRE_MAP :: "(string \<times> string) list" where
  "GENRE_MAP =
     [(''trance'', ''trance''), (''progressive trance'', ''trance''), (''uplifting trance'', ''trance''),
      (''vocal trance'', ''trance''), (''psytrance'', ''trance''), (''psy trance'', ''trance''),
      (''hardcore'', ''hardcore''), (''frenchcore'', ''hardcore''), (''speedcore'', ''hardcore''),
      (''uptempo hardcore'', ''hardcore''), (''gabber'', ''hardcore''), (''industrial hardcore'', ''hardcore''),
      (''hardstyle'', ''hardstyle''), (''rawstyle'', ''hardstyle''), (''euphoric hardstyle'', ''hardstyle''),
      (''techno'', ''techno''), (''minimal techno'', ''techno''), (''acid techno'', ''techno''),
      (''detroit techno'', ''techno''),
      (''house'', ''house''), (''tech house'', ''house''), (''deep house'', ''house''),
      (''progressive house'', ''house''), (''electro house'', ''house''),
      (''drum and bass'', ''dnb''), (''dnb'', ''dnb''), (''jungle'', ''dnb''), (''neurofunk'', ''dnb''),
      (''liquid dnb'', ''dnb'')]"

text \<open>
  \<open>detectGenreTheme\<close> on an array of genre strings: for each genre in turn, the exact
  entry of \<open>GENRE_MAP\<close> if there is one, else the first entry (in the order written)
  whose key contains the genre or is contained in it. The exact lookup is among the
  keys written in \<open>GENRE_MAP\<close>. In the source \<^verbatim>\<open>GENRE_MAP[normalized]\<close> also finds what
  every object inherits, so a genre spelled \<^verbatim>\<open>constructor\<close> or \<^verbatim>\<open>__proto__\<close> returns at
  once with a value that is no genre key; such genres are outside this model.
\<close>

fun detectGenreTheme :: "string list \<Rightarrow> string" where
  "detectGenreTheme [] = ''default''"
| "detectGenreTheme (genre # rest) =
     (let normalized = trim (toLowerCase genre)
      in case map_of GENRE_MAP normalized of
           Some v \<Rightarrow> v
         | None \<Rightarrow>
             (case find (\<lambda>(key, v). stringIncludes normalized key \<or> stringIncludes key normalized) GENRE_MAP of
                Some (key, v) \<Rightarrow> v
              | None \<Rightarrow> detectGenreTheme rest))"

subsection \<open>Track data, theme and engine state\<close>

record audio_features =
  energy :: real
  valence :: real
  danceability :: real

text \<open>The parts of the track data that the engine reads; each may be missing.\<close>

record track =
  albumArt :: "string option"

record features =
  features_bpm :: "real option"
  features_energy :: "real option"
  features_valence :: "real option"
  features_danceability :: "real option"

record trackData =
  track :: "track option"
  genres :: "string list option"
  features :: "features option"

record theme_colors =
  colors_primary :: string
  colors_secondary :: string
  colors_accent :: string
  colors_background :: string
  colors_text :: string
  colors_textSecondary :: string

record theme_effects =
  effects_glowIntensity :: string
  effects_animationSpeed :: string
  effects_blurStrength :: string
  effects_beatDuration :: string

record theme =
  source :: string
  genre :: string
  genreName :: string
  colors :: theme_colors
  theme_effects :: theme_effects
  theme_audioFeatures :: audio_features
  theme_bpm :: real
  intensityClass :: string
  timestamp :: nat

record themeEngine =
  currentTheme :: "theme option"
  syncWithHA :: bool
  albumArtColors :: "palette option"
  haLightColors :: "rgb option"
  beatEngine :: "audio_features beatEngine"
  currentBPM :: "real option"
  engine_audioFeatures :: "audio_features option"

definition newThemeEngine :: "bus_ref option \<Rightarrow> themeEngine" where
  "newThemeEngine bus =
     \<lparr> currentTheme = None, syncWithHA = False, albumArtColors = None, haLightColors = None,
       beatEngine = newBeatEngine bus, currentBPM = None, engine_audioFeatures = None \<rparr>"

subsection \<open>generateThemeFromTrack\<close>

text \<open>\<^verbatim>\<open>x || d\<close> on a number that may be missing: \<open>d\<close> when \<open>x\<close> is falsy.\<close>

definition orDefault :: "real option \<Rightarrow> real \<Rightarrow> real" where
  "orDefault v d = (case v of None \<Rightarrow> d | Some x \<Rightarrow> if x = 0 then d else x)"

text \<open>\<^verbatim>\<open>trackData.features?.field\<close>.\<close>

definition feature :: "(features \<Rightarrow> real option) \<Rightarrow> trackData \<Rightarrow> real option" where
  "feature field td = (case features td of None \<Rightarrow> None | Some f \<Rightarrow> field f)"

text \<open>
  Lines 200 to 216. \<open>colors\<close> starts as a reference to \<open>genreTheme.baseColors\<close>, the
  object inside the table; only a successful extraction replaces it by a fresh
  object. The flag returned with the colours says whether \<open>colors\<close> is still that
  reference. The album art is used when it is a non-empty string; a rejected
  extraction is caught and logged.
\<close>

definition extractStep :: "(string \<Rightarrow> image) \<Rightarrow> track \<Rightarrow> genre_theme \<Rightarrow> themeEngine \<Rightarrow>
    color_set \<times> bool \<times> themeEngine" where
  "extractStep loadImage tr genreTheme eng =
     (case albumArt tr of
        None \<Rightarrow> (baseColors genreTheme, True, eng)
      | Some url \<Rightarrow>
          if url = [] then (baseColors genreTheme, True, eng)
          else
            (case extractColors (loadImage url) 5 of
               Inl err \<Rightarrow> (baseColors genreTheme, True, eng)
             | Inr extracted \<Rightarrow>
                 (\<lparr> primary = dominant extracted,
                    secondary = (case colorList extracted of
                                   c0 # c1 # cs \<Rightarrow> c1
                                 | _ \<Rightarrow> dominant extracted),
                    accent = accent (baseColors genreTheme) \<rparr>,
                  False,
                  eng\<lparr> albumArtColors := Some extracted \<rparr>)))"

text \<open>
  Lines 218 to 221: \<^verbatim>\<open>colors.primary = this.haLightColors\<close>. When \<open>colors\<close> is still the
  reference into the table, the assignment writes to the table entry.
\<close>

definition overrideStep :: "string \<Rightarrow> genre_theme \<Rightarrow> color_set \<times> bool \<Rightarrow> genre_table \<Rightarrow> themeEngine \<Rightarrow>
    color_set \<times> genre_table" where
  "overrideStep entryKey genreTheme ca tbl eng =
     (case ca of (colors0, aliased) \<Rightarrow>
        (case haLightColors eng of
           Some c \<Rightarrow>
             if syncWithHA eng
             then (colors0\<lparr> primary := c \<rparr>,
                   if aliased
                   then tbl(entryKey \<mapsto> genreTheme\<lparr> baseColors := colors0\<lparr> primary := c \<rparr> \<rparr>)
                   else tbl)
             else (colors0, tbl)
         | None \<Rightarrow> (colors0, tbl)))"

definition intensityOf :: "real \<Rightarrow> string" where
  "intensityOf e = (if e < 4 / 10 then ''low'' else if e > 7 / 10 then ''high'' else ''medium'')"

text \<open>
  The beat duration in whole milliseconds. The quotient here is the exact one; the
  source rounds the double nearest to it, which gives the neighbouring integer when the
  exact quotient lies within a double's rounding error below a half.
\<close>

definition beatDurationOf :: "real \<Rightarrow> string" where
  "beatDurationOf b = (if b \<noteq> 0 then numberToString (mathRound (60000 / b)) @ ''ms'' else ''1000ms'')"

text \<open>Lines 250 to 271, the theme object.\<close>

definition buildTheme :: "nat \<Rightarrow> themeEngine \<Rightarrow> string \<Rightarrow> genre_theme \<Rightarrow> color_set \<Rightarrow> audio_features \<Rightarrow>
    real \<Rightarrow> theme" where
  "buildTheme now eng genreKey genreTheme cols af b =
     \<lparr> source = (if syncWithHA eng \<and> haLightColors eng \<noteq> None then ''homeassistant'' else ''spotify''),
       genre = genreKey,
       genreName = name genreTheme,
       colors = \<lparr> colors_primary = rgbToString (primary cols),
                  colors_secondary = rgbToString (secondary cols),
                  colors_accent = rgbToString (accent cols),
                  colors_background = ''rgba(0, 0, 0, 0.7)'',
                  colors_text = ''#ffffff'',
                  colors_textSecondary = ''rgba(255, 255, 255, 0.7)'' \<rparr>,
       theme_effects = \<lparr> effects_glowIntensity = glowIntensity (effects genreTheme),
                         effects_animationSpeed = animationSpeed (effects genreTheme),
                         effects_blurStrength = blurStrength (effects genreTheme),
                         effects_beatDuration = beatDurationOf b \<rparr>,
       theme_audioFeatures = af,
       theme_bpm = b,
       intensityClass = intensityOf (energy af),
       timestamp = now \<rparr>"

text \<open>
  \<^verbatim>\<open>GENRE_THEMES[genreKey] || GENRE_THEMES.default\<close>: the entry read, with the key it
  is stored under. Without a default entry the result is \<^verbatim>\<open>undefined\<close> (\<open>None\<close>).
\<close>

definition lookupGenre :: "genre_table \<Rightarrow> string \<Rightarrow> (string \<times> genre_theme) option" where
  "lookupGenre tbl genreKey =
     (case tbl genreKey of
        Some genreTheme \<Rightarrow> Some (genreKey, genreTheme)
      | None \<Rightarrow>
          (case tbl ''default'' of
             Some genreTheme \<Rightarrow> Some (''default'', genreTheme)
           | None \<Rightarrow> None))"

text \<open>
  Lines 223 to 275: tempo and audio features, the beat engine, the theme object. The
  beat engine is started only for a positive tempo; an exception it throws leaves the
  function before the theme is built.
\<close>

definition finishTheme :: "nat \<Rightarrow> trackData \<Rightarrow> string \<Rightarrow> genre_theme \<Rightarrow> color_set \<Rightarrow>
    genre_table \<Rightarrow> themeEngine \<Rightarrow>
    (genre_table \<times> themeEngine) \<times> (js_error + theme option) \<times> audio_features emitted list" where
  "finishTheme now td genreKey genreTheme cols tbl1 eng1 =
     (let b = orDefault (feature features_bpm td) 120;
          af = \<lparr> energy = orDefault (feature features_energy td) (1 / 2),
                 valence = orDefault (feature features_valence td) (1 / 2),
                 danceability = orDefault (feature features_danceability td) (1 / 2) \<rparr>;
          eng2 = eng1\<lparr> currentBPM := Some b, engine_audioFeatures := Some af \<rparr>;
          started = (if b \<noteq> 0 \<and> b > 0 then setBPM now (Some b) af (beatEngine eng2)
                     else (beatEngine eng2, Inr []))
      in case started of
           (be, Inl err) \<Rightarrow> ((tbl1, eng2\<lparr> beatEngine := be \<rparr>), Inl err, [])
         | (be, Inr ticks) \<Rightarrow>
             (let th = buildTheme now eng2 genreKey genreTheme cols af b
              in ((tbl1, eng2\<lparr> beatEngine := be, currentTheme := Some th \<rparr>), Inr (Some th), ticks)))"

text \<open>
  \<open>generateThemeFromTrack loadImage now trackData (table, engine)\<close>. \<open>loadImage\<close> says
  what the browser makes of each album-art URL, \<open>now\<close> is the clock. The result is the
  table and engine left behind, the value of the promise (\<open>Inr None\<close> is \<^verbatim>\<open>null\<close>,
  \<open>Inl\<close> a rejection), and the beat ticks emitted on the bus. Reading \<open>baseColors\<close>
  of a missing entry would throw.
\<close>

definition generateThemeFromTrack :: "(string \<Rightarrow> image) \<Rightarrow> nat \<Rightarrow> trackData option \<Rightarrow>
    genre_table \<times> themeEngine \<Rightarrow>
    (genre_table \<times> themeEngine) \<times> (js_error + theme option) \<times> audio_features emitted list" where
  "generateThemeFromTrack loadImage now trackData st =
     (case st of (tbl, eng) \<Rightarrow>
      case trackData of
        None \<Rightarrow> (st, Inr None, [])
      | Some td \<Rightarrow>
     (case track td of
        None \<Rightarrow> (st, Inr None, [])
      | Some tr \<Rightarrow>
     (let genreKey = detectGenreTheme (case genres td of None \<Rightarrow> [] | Some gs \<Rightarrow> gs)
      in case lookupGenre tbl genreKey of
        None \<Rightarrow> (st, Inl TypeError, [])
      | Some (entryKey, genreTheme) \<Rightarrow>
     (case extractStep loadImage tr genreTheme eng of (colors0, aliased, eng1) \<Rightarrow>
      case overrideStep entryKey genreTheme (colors0, aliased) tbl eng1 of (cols, tbl1) \<Rightarrow>
        finishTheme now td genreKey genreTheme cols tbl1 eng1))))"

subsection \<open>Home Assistant override\<close>

text \<open>
  The light state as the light source supplies it: the colour attribute is a triple or
  absent. A JavaScript function that ends with a bare \<^verbatim>\<open>return;\<close> gives \<^verbatim>\<open>undefined\<close>.
\<close>

record lightState =
  rgb_color :: "(int \<times> int \<times> int) option"

datatype js_value = Undefined | Boolean bool

definition updateFromHomeAssistant :: "lightState option \<Rightarrow> themeEngine \<Rightarrow> themeEngine \<times> js_value" where
  "updateFromHomeAssistant ls eng =
     (case (case ls of None \<Rightarrow> None | Some l \<Rightarrow> rgb_color l) of
        None \<Rightarrow> (eng\<lparr> haLightColors := None \<rparr>, Undefined)
      | Some (r, g, b) \<Rightarrow>
          (let eng1 = eng\<lparr> haLightColors := Some \<lparr> rgb_r = r, rgb_g = g, rgb_b = b \<rparr> \<rparr>
           in if currentTheme eng1 \<noteq> None then (eng1, Boolean True) else (eng1, Boolean False)))"

definition setSyncWithHomeAssistant :: "bool \<Rightarrow> themeEngine \<Rightarrow> themeEngine" where
  "setSyncWithHomeAssistant enabled eng = eng\<lparr> syncWithHA := enabled \<rparr>"

section \<open>Concrete inputs\<close>

text \<open>A bus with two handlers: handler 2 listens to track updates, handler 1 to track
  updates and to the wildcard. \<open>exMsg ts\<close> is a track update stamped \<open>ts\<close>.\<close>

definition exBus :: bus where
  "exBus = on [''spotify:track'', ''*''] 1 (on [''spotify:track''] 2 newEventBus)"

definition exMsg :: "int \<Rightarrow> string message" where
  "exMsg ts = \<lparr> msg_type = ''spotify:track'', msg_data = ''payload'', msg_timestamp = ts \<rparr>"

text \<open>Audio features of a lively track, and a beat engine attached to a bus.\<close>

definition exFeatures :: audio_features where
  "exFeatures = \<lparr> energy = 8 / 10, valence = 1 / 2, danceability = 6 / 10 \<rparr>"

definition exBeatEngine :: "audio_features beatEngine" where
  "exBeatEngine = newBeatEngine (Some EventBusRef)"

text \<open>Three close colours, and two pixels: a vibrant red and an opaque black.\<close>

definition cA :: rgb where "cA = \<lparr> rgb_r = 100, rgb_g = 50, rgb_b = 0 \<rparr>"

definition cB :: rgb where "cB = \<lparr> rgb_r = 102, rgb_g = 50, rgb_b = 0 \<rparr>"

definition cM :: rgb where "cM = \<lparr> rgb_r = 101, rgb_g = 50, rgb_b = 0 \<rparr>"

definition exVibrant :: pixel where "exVibrant = (200, 50, 50, 255)"

definition exBlack :: pixel where "exBlack = (0, 0, 0, 255)"

text \<open>
  A track without album art or genres whose energy, valence and danceability are all
  0; a browser in which no image loads; a new theme engine attached to a bus; and the
  same engine after \<open>setSyncWithHomeAssistant(true)\<close> and a light update with the colour
  \<open>(10, 20, 30)\<close>.
\<close>

definition exTrack :: trackData where
  "exTrack =
     \<lparr> track = Some \<lparr> albumArt = None \<rparr>,
       genres = None,
       features = Some \<lparr> features_bpm = Some 128, features_energy = Some 0,
                          features_valence = Some 0, features_danceability = Some 0 \<rparr> \<rparr>"

definition noImages :: "string \<Rightarrow> image" where
  "noImages url = LoadError"

definition exEngine :: themeEngine where
  "exEngine = newThemeEngine (Some EventBusRef)"

definition exLight :: lightState where
  "exLight = \<lparr> rgb_color = Some (10, 20, 30) \<rparr>"

definition exEngineHA :: themeEngine where
  "exEngineHA = fst (updateFromHomeAssistant (Some exLight) (setSyncWithHomeAssistant True exEngine))"

text \<open>
  A trance track with album art, in a browser where every image decodes to one vibrant
  pixel; and the engine \<open>exEngine\<close> after it has produced a theme for \<open>exTrack\<close>.
\<close>

definition exArtTrack :: trackData where
  "exArtTrack =
     \<lparr> track = Some \<lparr> albumArt = Some ''cover.jpg'' \<rparr>,
       genres = Some [''Trance''],
       features = Some \<lparr> features_bpm = Some 140, features_energy = Some (9 / 10),
                          features_valence = None, features_danceability = Some (7 / 10) \<rparr> \<rparr>"

definition onePixelImages :: "string \<Rightarrow> image" where
  "onePixelImages url = Loaded (ImageData [exVibrant])"

definition exEngineThemed :: themeEngine where
  "exEngineThemed = snd (fst (generateThemeFromTrack noImages 5 (Some exTrack) (GENRE_THEMES, exEngine)))"

text \<open>A browser in which every image loads but the canvas throws.\<close>

definition brokenCanvas :: "string \<Rightarrow> image" where
  "brokenCanvas url = Loaded (CanvasThrows CanvasError)"

section \<open>Decimal text is injective\<close>


lemma digit_char_inj: "a < 10 \<Longrightarrow> b < 10 \<Longrightarrow> digit_char a = digit_char b \<Longrightarrow> a = b"
  unfolding digit_char_def
  by (auto simp: less_Suc_eq numeral_eq_Suc nth_Cons')

lemma digit_char_not_minus: "d < 10 \<Longrightarrow> digit_char d \<noteq> CHR ''-''"
  unfolding digit_char_def
  by (auto simp: less_Suc_eq numeral_eq_Suc nth_Cons')

lemma showNat_nonempty: "showNat n \<noteq> []"
  by (subst showNat.simps) simp

lemma showNat_inj: "showNat n = showNat m \<Longrightarrow> n = m"
proof (induction n arbitrary: m rule: showNat.induct)
  case (1 n)
  show ?case
  proof (cases "n < 10")
    case True
    note n = this
    show ?thesis
    proof (cases "m < 10")
      case True
      with n 1(2) show ?thesis
        by (simp add: showNat.simps[of n] showNat.simps[of m] digit_char_inj)
    next
      case False
      with n 1(2) showNat_nonempty[of "m div 10"] show ?thesis
        by (simp add: showNat.simps[of n] showNat.simps[of m])
    qed
  next
    case False
    note n = this
    show ?thesis
    proof (cases "m < 10")
      case True
      with n 1(2) showNat_nonempty[of "n div 10"] show ?thesis
        by (simp add: showNat.simps[of n] showNat.simps[of m])
    next
      case False
      with n 1(2) have eq: "showNat (n div 10) = showNat (m div 10)"
        and d: "digit_char (n mod 10) = digit_char (m mod 10)"
        by (simp_all add: showNat.simps[of n] showNat.simps[of m])
      from 1(1)[OF n eq] have "n div 10 = m div 10" .
      moreover from d have "n mod 10 = m mod 10"
        by (intro digit_char_inj) simp_all
      ultimately show ?thesis
        by (metis div_mult_mod_eq)
    qed
  qed
qed

lemma showNat_hd: "hd (showNat n) \<noteq> CHR ''-''"
proof (induction n rule: showNat.induct)
  case (1 n)
  show ?case
  proof (cases "n < 10")
    case True
    then show ?thesis by (simp add: showNat.simps[of n] digit_char_not_minus)
  next
    case False
    with 1 showNat_nonempty[of "n div 10"] show ?thesis
      by (simp add: showNat.simps[of n])
  qed
qed

lemma numberToString_inj: "numberToString i = numberToString j \<Longrightarrow> i = j"
proof -
  assume a: "numberToString i = numberToString j"
  have neg: "\<And>n m. CHR ''-'' # showNat n \<noteq> showNat m"
    using showNat_hd showNat_nonempty by (metis list.sel(1))
  show ?thesis
  proof (cases "i < 0")
    case True
    note i = this
    show ?thesis
    proof (cases "j < 0")
      case True
      with i a have "showNat (nat (- i)) = showNat (nat (- j))"
        by (simp add: numberToString_def)
      then have "nat (- i) = nat (- j)" by (rule showNat_inj)
      with i True show ?thesis by simp
    next
      case False
      with i a neg show ?thesis by (simp add: numberToString_def)
    qed
  next
    case False
    note i = this
    show ?thesis
    proof (cases "j < 0")
      case True
      with i a neg[of "nat (- j)" "nat i"] show ?thesis by (simp add: numberToString_def)
    next
      case False
      with i a have "showNat (nat i) = showNat (nat j)"
        by (simp add: numberToString_def)
      then have "nat i = nat j" by (rule showNat_inj)
      with i False show ?thesis by simp
    qed
  qed
qed

lemma messageKey_same_type:
  "msg_type m2 = msg_type m1 \<Longrightarrow> messageKey m2 = messageKey m1 \<longleftrightarrow> msg_timestamp m2 = msg_timestamp m1"
  by (auto simp: messageKey_def dest: numberToString_inj)


section \<open>Event bus: invariant and delivery\<close>


lemma bus_inv_new: "bus_inv newEventBus"
  by (simp add: bus_inv_def newEventBus_def)

lemma distinct_setAdd: "distinct xs \<Longrightarrow> distinct (setAdd x xs)"
  by (simp add: setAdd_def)

lemma distinct_setDelete: "distinct xs \<Longrightarrow> distinct (setDelete x xs)"
  by (simp add: setDelete_def)

lemma setAdd_idem: "setAdd x (setAdd x xs) = setAdd x xs"
  by (simp add: setAdd_def)

lemma bus_inv_onType: "bus_inv b \<Longrightarrow> bus_inv (onType h ty b)"
  by (auto simp: bus_inv_def onType_def Let_def distinct_setAdd setAdd_def split: option.splits if_splits)

lemma bus_inv_on: "bus_inv b \<Longrightarrow> bus_inv (on tys h b)"
  unfolding on_def by (induction tys arbitrary: b) (simp_all add: bus_inv_onType)

lemma bus_inv_offType: "bus_inv b \<Longrightarrow> bus_inv (offType h ty b)"
  by (auto simp: bus_inv_def offType_def distinct_setDelete split: option.splits if_splits)

lemma bus_inv_off: "bus_inv b \<Longrightarrow> bus_inv (off tys h b)"
  unfolding off_def by (induction tys arbitrary: b) (simp_all add: bus_inv_offType)

lemma bus_inv_runTimers: "bus_inv b \<Longrightarrow> bus_inv (runTimers now b)"
  unfolding bus_inv_def runTimers_def
  by (auto simp: distinct_map_filter dest: inj_onD[OF distinct_map[THEN iffD1, THEN conjunct2]])

lemma bus_inv_handleMessage: "bus_inv b \<Longrightarrow> bus_inv (fst (handleMessage now mo b))"
  unfolding bus_inv_def handleMessage_def
  by (auto split: option.splits)

lemma bus_inv_receive: "bus_inv b \<Longrightarrow> bus_inv (fst (receive now m b))"
  by (simp add: receive_def bus_inv_handleMessage bus_inv_runTimers)

lemma bus_inv_applyEvent: "bus_inv b \<Longrightarrow> bus_inv (applyEvent ev b)"
  by (cases ev) (simp_all add: bus_inv_on bus_inv_off bus_inv_receive)

lemma bus_inv_fold: "bus_inv b \<Longrightarrow> bus_inv (fold applyEvent evs b)"
  by (induction evs arbitrary: b) (simp_all add: bus_inv_applyEvent)

lemma bus_inv_run: "bus_inv (run evs)"
  unfolding run_def by (rule bus_inv_fold[OF bus_inv_new])

lemma listeners_runTimers: "listeners (runTimers now b) = listeners b"
  by (simp add: runTimers_def)

lemma window_runTimers: "deduplicationWindow (runTimers now b) = deduplicationWindow b"
  by (simp add: runTimers_def)

lemma history_runTimers: "messageHistory (runTimers now b) \<subseteq> messageHistory b"
  by (auto simp: runTimers_def)

lemma listeners_handleMessage: "listeners (fst (handleMessage now mo b)) = listeners b"
  by (simp add: handleMessage_def split: option.splits)

lemma invocations_append: "invocations h (xs @ ys) = invocations h xs + invocations h ys"
  by (simp add: invocations_def)

lemma invocations_dispatchTo:
  "invocations h (dispatchTo ls m) = (case ls of None \<Rightarrow> 0 | Some hs \<Rightarrow> length (filter (\<lambda>x. x = h) hs))"
  by (simp add: invocations_def dispatchTo_def filter_map comp_def split: option.splits)

lemma distinct_count: "distinct hs \<Longrightarrow> length (filter (\<lambda>x. x = h) hs) = (if h \<in> set hs then 1 else 0)"
  by (induction hs) auto

lemma invocations_fresh:
  assumes "bus_inv b" "msg_type m \<noteq> []" "messageKey m \<notin> messageHistory b"
  shows "invocations h (snd (handleMessage now (Some m) b)) = subscriptions b (msg_type m) h"
  using assms
  by (auto simp: handleMessage_def invocations_append invocations_dispatchTo subscriptions_def
      bus_inv_def distinct_count split: option.splits)

lemma duplicate_dropped:
  "messageKey m \<in> messageHistory b \<Longrightarrow> handleMessage now (Some m) b = (b, [])"
  by (simp add: handleMessage_def)

lemma key_survives:
  assumes inv: "bus_inv b" and ty: "msg_type m \<noteq> []" and fresh: "messageKey m \<notin> messageHistory b"
    and t: "t2 < t1 + deduplicationWindow b"
  shows "messageKey m \<in> messageHistory (runTimers t2 (fst (handleMessage t1 (Some m) b)))"
proof -
  from inv fresh have "messageKey m \<notin> snd ` set (timers b)"
    by (auto simp: bus_inv_def)
  with ty fresh t show ?thesis
    by (auto simp: handleMessage_def runTimers_def)
qed




lemma exBus_listeners: "listeners exBus = [''spotify:track'' \<mapsto> [2, 1], ''*'' \<mapsto> [1]]"
  by (simp add: exBus_def on_def onType_def newEventBus_def setAdd_def fun_upd_twist)

lemma exBus_rest: "messageHistory exBus = {}" "timers exBus = []" "deduplicationWindow exBus = 100"
  by (simp_all add: exBus_def on_def onType_def newEventBus_def)

lemma exBus_inv: "bus_inv exBus"
  by (simp add: exBus_def bus_inv_on bus_inv_new)

lemma exMsg_key: "messageKey (exMsg 1000) = ''spotify:track-1000''"  "messageKey (exMsg 1001) = ''spotify:track-1001''"
  by (simp_all add: messageKey_def exMsg_def numberToString_def showNat.simps digit_char_def)

text \<open>
  Claim C1, as the code has it. Take a bus in a reachable state and two messages of the
  same non-empty type, handled at times \<open>t1\<close> and \<open>t2\<close>, the first one not already
  in the history. Every handler is called once for each dispatch pass that holds it
  (the type's own listener set, then the wildcard set):
  \<^item> same timestamp, second message handled before the window of the first has run out:
    the second message calls nobody, and the total for the pair is one delivery;
  \<^item> differing timestamps (the second key not in the history either): each message is
    delivered on its own.
\<close>

theorem handleMessage_dedup:
  assumes inv: "bus_inv b"
    and ty: "msg_type m1 \<noteq> []"
    and same: "msg_type m2 = msg_type m1"
    and fresh1: "messageKey m1 \<notin> messageHistory b"
  shows "(msg_timestamp m2 = msg_timestamp m1 \<and> t2 < t1 + deduplicationWindow b \<longrightarrow>
            snd (receive t2 m2 (fst (receive t1 m1 b))) = [] \<and>
            invocations h (snd (receive t1 m1 b) @ snd (receive t2 m2 (fst (receive t1 m1 b))))
              = subscriptions b (msg_type m1) h) \<and>
         (msg_timestamp m2 \<noteq> msg_timestamp m1 \<and> messageKey m2 \<notin> messageHistory b \<longrightarrow>
            invocations h (snd (receive t1 m1 b)) = subscriptions b (msg_type m1) h \<and>
            invocations h (snd (receive t2 m2 (fst (receive t1 m1 b)))) = subscriptions b (msg_type m2) h)"
proof -
  let ?b0 = "runTimers t1 b"
  let ?b1 = "fst (receive t1 m1 b)"
  have inv0: "bus_inv ?b0" using inv by (rule bus_inv_runTimers)
  have fresh0: "messageKey m1 \<notin> messageHistory ?b0"
    using fresh1 history_runTimers[of t1 b] by auto
  have first: "invocations h (snd (receive t1 m1 b)) = subscriptions b (msg_type m1) h"
    using invocations_fresh[OF inv0 ty fresh0, of h t1]
    by (simp add: receive_def subscriptions_def listeners_runTimers)
  have inv1: "bus_inv ?b1" using inv by (rule bus_inv_receive)
  have lis1: "listeners ?b1 = listeners b"
    by (simp add: receive_def listeners_handleMessage listeners_runTimers)
  have hist1: "messageHistory ?b1 = insert (messageKey m1) (messageHistory ?b0)"
    using ty fresh0 by (simp add: receive_def handleMessage_def)
  have dup: "snd (receive t2 m2 ?b1) = []"
    if ts: "msg_timestamp m2 = msg_timestamp m1" and w: "t2 < t1 + deduplicationWindow b"
  proof -
    have k: "messageKey m2 = messageKey m1"
      using same ts by (simp add: messageKey_def)
    have "messageKey m1 \<in> messageHistory (runTimers t2 ?b1)"
      unfolding receive_def
      using key_survives[OF inv0 ty fresh0, of t2 t1] w by (simp add: window_runTimers)
    then show ?thesis
      unfolding receive_def[of t2] by (simp add: duplicate_dropped k)
  qed
  have second: "invocations h (snd (receive t2 m2 ?b1)) = subscriptions b (msg_type m2) h"
    if ts: "msg_timestamp m2 \<noteq> msg_timestamp m1" and fresh2: "messageKey m2 \<notin> messageHistory b"
  proof -
    have k: "messageKey m2 \<noteq> messageKey m1"
      using same ts by (simp add: messageKey_same_type)
    have "messageKey m2 \<notin> messageHistory ?b1"
      using k fresh2 history_runTimers[of t1 b] by (auto simp: hist1)
    then have f: "messageKey m2 \<notin> messageHistory (runTimers t2 ?b1)"
      using history_runTimers[of t2 ?b1] by auto
    have ty2: "msg_type m2 \<noteq> []" using ty same by simp
    show ?thesis
      using invocations_fresh[OF bus_inv_runTimers[OF inv1] ty2 f, of h t2]
      by (simp add: receive_def[of t2] subscriptions_def listeners_runTimers lis1)
  qed
  show ?thesis
    using first dup second by (simp add: invocations_append)
qed


text \<open>
  Claim C1 as stated says that each subscribed handler is invoked exactly once for a
  pair of messages with the same type and timestamp. Handler 1 of \<open>exBus\<close> is
  subscribed to the type and to the wildcard; the first message reaches it in both
  dispatch passes, so it is invoked twice.
\<close>

theorem handleMessage_dedup_counterexample:
  "invocations 1 (snd (receive 0 (exMsg 1000) exBus) @
                  snd (receive 10 (exMsg 1000) (fst (receive 0 (exMsg 1000) exBus)))) = 2"
  by (simp add: receive_def runTimers_def handleMessage_def exBus_listeners exBus_rest exMsg_key
       dispatchTo_def invocations_def) (simp add: exMsg_def)

text \<open>On \<open>exBus\<close>, for handler 2, which is subscribed to the type only.\<close>

theorem handleMessage_dedup_witness:
  "bus_inv exBus \<and> msg_type (exMsg 1000) \<noteq> [] \<and> messageKey (exMsg 1000) \<notin> messageHistory exBus \<and>
   messageKey (exMsg 1001) \<notin> messageHistory exBus \<and> (10::nat) < 0 + deduplicationWindow exBus \<and>
   snd (receive 10 (exMsg 1000) (fst (receive 0 (exMsg 1000) exBus))) = [] \<and>
   invocations 2 (snd (receive 0 (exMsg 1000) exBus) @
                  snd (receive 10 (exMsg 1000) (fst (receive 0 (exMsg 1000) exBus)))) = 1 \<and>
   invocations 2 (snd (receive 0 (exMsg 1000) exBus)) = 1 \<and>
   invocations 2 (snd (receive 10 (exMsg 1001) (fst (receive 0 (exMsg 1000) exBus)))) = 1"
proof -
  have ty: "msg_type (exMsg 1000) \<noteq> []" by (simp add: exMsg_def)
  have f1: "messageKey (exMsg 1000) \<notin> messageHistory exBus" by (simp add: exBus_rest)
  have f2: "messageKey (exMsg 1001) \<notin> messageHistory exBus" by (simp add: exBus_rest)
  have sub: "subscriptions exBus ''spotify:track'' 2 = 1"
    by (simp add: subscriptions_def exBus_listeners)
  have tyv: "msg_type (exMsg ts) = ''spotify:track''" for ts by (simp add: exMsg_def)
  show ?thesis
    using handleMessage_dedup[OF exBus_inv ty _ f1, of "exMsg 1000" 10 0 2]
          handleMessage_dedup[OF exBus_inv ty _ f1, of "exMsg 1001" 10 0 2]
          exBus_inv ty f1 f2 sub
    by (simp add: tyv exBus_rest) (simp add: exMsg_def)
qed



lemma onType_fields:
  "messageHistory (onType h ty b) = messageHistory b"
  "timers (onType h ty b) = timers b"
  "deduplicationWindow (onType h ty b) = deduplicationWindow b"
  by (simp_all add: onType_def Let_def)

lemma onType_idem: "onType h ty (onType h ty b) = onType h ty b"
  by (simp add: onType_def Let_def setAdd_idem)

lemma on_single: "on [ty] h b = onType h ty b"
  by (simp add: on_def)

lemma on_repeat: "((on [ty] h) ^^ Suc n) b = on [ty] h b"
  by (induction n) (simp_all add: on_single onType_idem)

lemma listeners_onType:
  "listeners (onType h ty b) ty = Some (setAdd h (case listeners b ty of None \<Rightarrow> [] | Some hs \<Rightarrow> hs))"
  by (simp add: onType_def Let_def)

lemma listeners_onType_other:
  "ty' \<noteq> ty \<Longrightarrow> listeners (onType h ty b) ty' = listeners b ty'"
  by (simp add: onType_def Let_def)

lemma count_setAdd: "distinct hs \<Longrightarrow> length (filter (\<lambda>x. x = h) (setAdd h hs)) = 1"
  by (simp add: distinct_count distinct_setAdd) (simp add: setAdd_def)

text \<open>
  Claim C10 as stated has a delivered message invoke the handler exactly once. Handler
  1 of \<open>exBus\<close> is subscribed to track updates and to the wildcard; registering it
  twice more for track updates leaves it stored once in that set, and a track update
  still invokes it twice, once in each dispatch pass.
\<close>

theorem on_idempotent_counterexample:
  "listeners (on [''spotify:track''] 1 (on [''spotify:track''] 1 exBus)) ''spotify:track'' = Some [2, 1] \<and>
   invocations 1 (snd (handleMessage 0 (Some (exMsg 1000))
      (on [''spotify:track''] 1 (on [''spotify:track''] 1 exBus)))) = 2"
proof -
  have same: "on [''spotify:track''] 1 exBus = exBus"
    by (rule bus.equality) (simp_all add: on_single onType_def exBus_listeners exBus_rest setAdd_def fun_upd_twist)
  show ?thesis
    unfolding same
    by (simp add: handleMessage_def exBus_listeners exBus_rest exMsg_key dispatchTo_def invocations_def)
       (simp add: exMsg_def)
qed

text \<open>
  Claim C10, as the code has it. Registering handler \<open>h\<close> for type \<open>ty\<close> any number of
  times (\<open>Suc n\<close> calls of \<open>on\<close>) leaves the bus exactly as one registration does. On a
  bus in a reachable state the listener set of \<open>ty\<close> then holds \<open>h\<close> once, and a
  delivered message of that type invokes \<open>h\<close> once for each dispatch pass whose set
  holds it, however often it was registered: twice when \<open>ty\<close> is the wildcard itself
  or \<open>h\<close> also has a wildcard subscription, exactly once otherwise.
\<close>

theorem on_idempotent:
  "((on [ty] h) ^^ Suc n) b = on [ty] h b \<and>
   (bus_inv b \<longrightarrow>
      (\<exists>hs. listeners (((on [ty] h) ^^ Suc n) b) ty = Some hs \<and>
            length (filter (\<lambda>x. x = h) hs) = 1) \<and>
      (msg_type m = ty \<and> ty \<noteq> [] \<and> messageKey m \<notin> messageHistory b \<longrightarrow>
         invocations h (snd (handleMessage now (Some m) (((on [ty] h) ^^ Suc n) b))) =
           (if ty = ''*'' \<or> h \<in> set (case listeners b ''*'' of None \<Rightarrow> [] | Some hs \<Rightarrow> hs)
            then 2 else 1)))"
proof -
  let ?b' = "onType h ty b"
  have rep: "((on [ty] h) ^^ Suc n) b = ?b'"
    by (simp only: on_repeat on_single)
  have rest: "(\<exists>hs. listeners ?b' ty = Some hs \<and> length (filter (\<lambda>x. x = h) hs) = 1) \<and>
      (msg_type m = ty \<and> ty \<noteq> [] \<and> messageKey m \<notin> messageHistory b \<longrightarrow>
         invocations h (snd (handleMessage now (Some m) ?b')) =
           (if ty = ''*'' \<or> h \<in> set (case listeners b ''*'' of None \<Rightarrow> [] | Some hs \<Rightarrow> hs)
            then 2 else 1))"
    if inv: "bus_inv b"
  proof -
    have d: "distinct (case listeners b ty of None \<Rightarrow> [] | Some hs \<Rightarrow> hs)"
      using inv by (auto simp: bus_inv_def split: option.splits)
    have dw: "distinct (case listeners b ''*'' of None \<Rightarrow> [] | Some hs \<Rightarrow> hs)"
      using inv by (auto simp: bus_inv_def split: option.splits)
    have stored: "\<exists>hs. listeners ?b' ty = Some hs \<and> length (filter (\<lambda>x. x = h) hs) = 1"
      using count_setAdd[OF d] by (simp add: listeners_onType)
    have inv': "bus_inv ?b'" using inv by (rule bus_inv_onType)
    have subs: "subscriptions ?b' ty h =
        (if ty = ''*'' \<or> h \<in> set (case listeners b ''*'' of None \<Rightarrow> [] | Some hs \<Rightarrow> hs)
         then 2 else 1)"
    proof (cases "ty = ''*''")
      case True
      have "h \<in> set (setAdd h (case listeners b ''*'' of None \<Rightarrow> [] | Some hs \<Rightarrow> hs))"
        by (simp add: setAdd_def)
      then show ?thesis
        using True by (simp add: subscriptions_def listeners_onType)
    next
      case False
      have "h \<in> set (setAdd h (case listeners b ty of None \<Rightarrow> [] | Some hs \<Rightarrow> hs))"
        by (simp add: setAdd_def)
      moreover have "listeners ?b' ''*'' = listeners b ''*''"
        using False by (simp add: listeners_onType_other)
      ultimately show ?thesis
        using False by (simp add: subscriptions_def listeners_onType split: option.splits)
    qed
    have inv1: "invocations h (snd (handleMessage now (Some m) ?b')) =
           (if ty = ''*'' \<or> h \<in> set (case listeners b ''*'' of None \<Rightarrow> [] | Some hs \<Rightarrow> hs)
            then 2 else 1)"
      if m: "msg_type m = ty" and ty: "ty \<noteq> []" and fresh: "messageKey m \<notin> messageHistory b"
    proof -
      have fresh': "messageKey m \<notin> messageHistory ?b'" using fresh by (simp add: onType_fields)
      have ty': "msg_type m \<noteq> []" using ty m by simp
      show ?thesis
        using invocations_fresh[OF inv' ty' fresh', of h now] subs m by simp
    qed
    from stored inv1 show ?thesis by blast
  qed
  show ?thesis
    unfolding rep using rest by (simp add: on_single)
qed

text \<open>Three registrations of a new handler 5 on \<open>exBus\<close>, and of handler 1, which already
  has a wildcard subscription.\<close>

theorem on_idempotent_witness:
  "bus_inv exBus \<and>
   messageKey \<lparr> msg_type = ''ha:light'', msg_data = ''on'', msg_timestamp = 42 \<rparr> \<notin> messageHistory exBus \<and>
   on [''ha:light''] 5 (on [''ha:light''] 5 (on [''ha:light''] 5 exBus)) = on [''ha:light''] 5 exBus \<and>
   listeners (on [''ha:light''] 5 (on [''ha:light''] 5 (on [''ha:light''] 5 exBus))) ''ha:light'' = Some [5] \<and>
   invocations 5 (snd (handleMessage 0 (Some \<lparr> msg_type = ''ha:light'', msg_data = ''on'', msg_timestamp = 42 \<rparr>)
      (on [''ha:light''] 5 (on [''ha:light''] 5 (on [''ha:light''] 5 exBus))))) = 1 \<and>
   invocations 1 (snd (handleMessage 0 (Some \<lparr> msg_type = ''ha:light'', msg_data = ''on'', msg_timestamp = 42 \<rparr>)
      (on [''ha:light''] 1 (on [''ha:light''] 1 (on [''ha:light''] 1 exBus))))) = 2"
proof -
  let ?m = "\<lparr> msg_type = ''ha:light'', msg_data = ''on'', msg_timestamp = 42 \<rparr> :: string message"
  have l: "listeners (on [''ha:light''] 5 exBus) ''ha:light'' = Some [5]"
    by (simp add: on_single onType_def exBus_listeners setAdd_def)
  have f: "messageKey ?m \<notin> messageHistory exBus"
    by (simp add: exBus_rest)
  have unfold: "((on [''ha:light''] k) ^^ Suc 2) exBus
      = on [''ha:light''] k (on [''ha:light''] k (on [''ha:light''] k exBus))" for k
    by (simp add: numeral_2_eq_2)
  have w5: "\<not> (''ha:light'' = ''*'' \<or> 5 \<in> set (case listeners exBus ''*'' of None \<Rightarrow> [] | Some hs \<Rightarrow> hs))"
    by (simp add: exBus_listeners)
  have w1: "''ha:light'' = ''*'' \<or> 1 \<in> set (case listeners exBus ''*'' of None \<Rightarrow> [] | Some hs \<Rightarrow> hs)"
    by (simp add: exBus_listeners)
  have ty: "msg_type ?m = ''ha:light'' \<and> ''ha:light'' \<noteq> [] \<and> messageKey ?m \<notin> messageHistory exBus"
    using f by simp
  note i5 = on_idempotent[where ty = "''ha:light''" and h = 5 and n = 2 and b = exBus and m = ?m
      and now = 0, unfolded unfold]
  note i1 = on_idempotent[where ty = "''ha:light''" and h = 1 and n = 2 and b = exBus and m = ?m
      and now = 0, unfolded unfold]
  from i5 have eq: "on [''ha:light''] 5 (on [''ha:light''] 5 (on [''ha:light''] 5 exBus)) = on [''ha:light''] 5 exBus"
    by (rule conjunct1)
  from i5 exBus_inv ty
  have "invocations 5 (snd (handleMessage 0 (Some ?m)
      (on [''ha:light''] 5 (on [''ha:light''] 5 (on [''ha:light''] 5 exBus))))) =
        (if ''ha:light'' = ''*'' \<or> 5 \<in> set (case listeners exBus ''*'' of None \<Rightarrow> [] | Some hs \<Rightarrow> hs)
         then 2 else 1)"
    by blast
  then have inv5: "invocations 5 (snd (handleMessage 0 (Some ?m)
      (on [''ha:light''] 5 (on [''ha:light''] 5 (on [''ha:light''] 5 exBus))))) = 1"
    unfolding if_not_P[OF w5] .
  from i1 exBus_inv ty
  have "invocations 1 (snd (handleMessage 0 (Some ?m)
      (on [''ha:light''] 1 (on [''ha:light''] 1 (on [''ha:light''] 1 exBus))))) =
        (if ''ha:light'' = ''*'' \<or> 1 \<in> set (case listeners exBus ''*'' of None \<Rightarrow> [] | Some hs \<Rightarrow> hs)
         then 2 else 1)"
    by blast
  then have inv1: "invocations 1 (snd (handleMessage 0 (Some ?m)
      (on [''ha:light''] 1 (on [''ha:light''] 1 (on [''ha:light''] 1 exBus))))) = 2"
    unfolding if_P[OF w1] .
  have l3: "listeners (on [''ha:light''] 5 (on [''ha:light''] 5 (on [''ha:light''] 5 exBus))) ''ha:light'' = Some [5]"
    by (simp only: eq l)
  from exBus_inv f eq l3 inv5 inv1 show ?thesis
    by (intro conjI)
qed

section \<open>Beat engine: tempo validation and restart\<close>


lemma validateBPM_invalid:
  "v = None \<or> (\<exists>x. v = Some x \<and> (x \<le> 0 \<or> x > 300)) \<Longrightarrow> validateBPM v = 120"
  by (auto simp: validateBPM_def)

lemma validateBPM_pos: "validateBPM v > 0"
  by (auto simp: validateBPM_def split: option.splits)

lemma setBPM_state:
  "bpm (fst (setBPM now v f e)) = Some (validateBPM v)"
  "beatInterval (fst (setBPM now v f e)) = Some (60000 / validateBPM v)"
  "audioFeatures (fst (setBPM now v f e)) = Some f"
  using validateBPM_pos[of v]
  by (auto simp: setBPM_def startBeat_def stopBeat_def emitBeat_def falsy_def Let_def
      split: option.splits prod.splits sum.splits)

lemma setBPM_attached:
  assumes "eventBus e = Some bus"
  shows "setBPM now v f e =
     (e\<lparr> bpm := Some (validateBPM v), audioFeatures := Some f,
         beatInterval := Some (60000 / validateBPM v),
         isRunning := True, beatCount := 1,
         beatTimerId := Some (IntervalTimer (Some (60000 / validateBPM v))) \<rparr>,
      Inr [(''beat:tick'',
            \<lparr> tick_beatCount = 1, tick_bpm = Some (validateBPM v),
              tick_beatInterval = Some (60000 / validateBPM v),
              tick_audioFeatures = Some f, tick_timestamp = now \<rparr>)])"
  using assms validateBPM_pos[of v]
  by (auto simp: setBPM_def startBeat_def stopBeat_def emitBeat_def falsy_def Let_def
      split: option.splits)

lemma setBPM_detached:
  assumes "eventBus e = None"
  shows "snd (setBPM now v f e) = Inl TypeError"
  using assms validateBPM_pos[of v]
  by (auto simp: setBPM_def startBeat_def stopBeat_def emitBeat_def falsy_def Let_def
      split: option.splits)

text \<open>
  Claim C5 as stated has no such call rejected. An engine built without a bus, or one
  that \<open>destroy\<close> has detached from its bus, throws a \<open>TypeError\<close> in \<open>emitBeat\<close>; the
  tempo has been replaced by 120 and the interval set to 500 ms by then.
\<close>

theorem setBPM_invalid_counterexample:
  "snd (setBPM 0 (Some 0) exFeatures (newBeatEngine None)) = Inl TypeError \<and>
   bpm (fst (setBPM 0 (Some 0) exFeatures (newBeatEngine None))) = Some 120 \<and>
   beatInterval (fst (setBPM 0 (Some 0) exFeatures (newBeatEngine None))) = Some 500 \<and>
   snd (setBPM 0 (Some 400) exFeatures (destroy exBeatEngine)) = Inl TypeError"
  by (simp add: setBPM_def validateBPM_def stopBeat_def startBeat_def emitBeat_def falsy_def
      exBeatEngine_def newBeatEngine_def destroy_def)

text \<open>
  Claim C5, as the code has it. A tempo that is missing or \<open>NaN\<close> (\<open>None\<close>), zero,
  negative or above 300 is replaced by 120: after \<open>setBPM\<close> the engine's \<open>bpm\<close> is 120
  and its \<open>beatInterval\<close> is 500 ms, on every engine. On an engine attached to a bus
  the call completes and returns the ticks it emitted; on an engine without a bus it
  throws a \<open>TypeError\<close>.
\<close>

theorem setBPM_invalid_uses_default:
  assumes "v = None \<or> (\<exists>x. v = Some x \<and> (x \<le> 0 \<or> x > 300))"
  shows "bpm (fst (setBPM now v f e)) = Some 120 \<and>
         beatInterval (fst (setBPM now v f e)) = Some 500 \<and>
         (eventBus e \<noteq> None \<longrightarrow> (\<exists>ticks. snd (setBPM now v f e) = Inr ticks)) \<and>
         (eventBus e = None \<longrightarrow> snd (setBPM now v f e) = Inl TypeError)"
proof -
  have "validateBPM v = 120" using assms by (rule validateBPM_invalid)
  then show ?thesis
    using setBPM_state(1,2)[of now v f e] setBPM_attached[of e _ now v f]
      setBPM_detached[of e now v f]
    by auto
qed

text \<open>The tempos 0 and 400 of the claim, on a new engine attached to a bus, and the
  tempo 0 on an engine built without one.\<close>

theorem setBPM_invalid_uses_default_witness:
  "bpm (fst (setBPM 0 (Some 0) exFeatures exBeatEngine)) = Some 120 \<and>
   beatInterval (fst (setBPM 0 (Some 0) exFeatures exBeatEngine)) = Some 500 \<and>
   bpm (fst (setBPM 0 (Some 400) exFeatures exBeatEngine)) = Some 120 \<and>
   beatInterval (fst (setBPM 0 (Some 400) exFeatures exBeatEngine)) = Some 500 \<and>
   eventBus exBeatEngine \<noteq> None \<and>
   (\<exists>ticks. snd (setBPM 0 (Some 0) exFeatures exBeatEngine) = Inr ticks) \<and>
   (\<exists>ticks. snd (setBPM 0 (Some 400) exFeatures exBeatEngine) = Inr ticks) \<and>
   eventBus (newBeatEngine None :: audio_features beatEngine) = None \<and>
   bpm (fst (setBPM 0 (Some 0) exFeatures (newBeatEngine None))) = Some 120 \<and>
   snd (setBPM 0 (Some 0) exFeatures (newBeatEngine None)) = Inl TypeError"
proof -
  have a0: "Some (0::real) = None \<or> (\<exists>x. Some (0::real) = Some x \<and> (x \<le> 0 \<or> x > 300))" by simp
  have a400: "Some (400::real) = None \<or> (\<exists>x. Some (400::real) = Some x \<and> (x \<le> 0 \<or> x > 300))" by simp
  have bus: "eventBus exBeatEngine \<noteq> None" by (simp add: exBeatEngine_def newBeatEngine_def)
  have nobus: "eventBus (newBeatEngine None :: audio_features beatEngine) = None"
    by (simp add: newBeatEngine_def)
  from setBPM_invalid_uses_default[OF a0, of 0 exFeatures exBeatEngine]
       setBPM_invalid_uses_default[OF a400, of 0 exFeatures exBeatEngine]
       setBPM_invalid_uses_default[OF a0, of 0 exFeatures "newBeatEngine None"] bus nobus
  show ?thesis by blast
qed

text \<open>
  Claim C6 as stated has the counter at 0 after \<open>setBPM\<close> and the first tick numbered 0.
  On a new engine, \<open>setBPM(120)\<close> leaves the counter at 1 and emits tick number 1.
\<close>

theorem setBPM_first_tick_counterexample:
  "beatCount (fst (setBPM 0 (Some 120) exFeatures exBeatEngine)) = 1 \<and>
   snd (setBPM 0 (Some 120) exFeatures exBeatEngine) =
     Inr [(''beat:tick'',
           \<lparr> tick_beatCount = 1, tick_bpm = Some 120, tick_beatInterval = Some 500,
             tick_audioFeatures = Some exFeatures, tick_timestamp = 0 \<rparr>)]"
  by (simp add: setBPM_def validateBPM_def stopBeat_def startBeat_def emitBeat_def falsy_def
      exBeatEngine_def newBeatEngine_def)

text \<open>
  Claim C6, as the code has it. Every call of \<open>setBPM\<close> on an engine attached to a bus
  leaves the engine running with its interval timer armed; \<open>startBeat\<close> sets the counter
  to 0 and \<open>emitBeat\<close> increments it before emitting, so the one tick emitted at once
  carries \<open>beatCount = 1\<close>, and the counter is 1 when \<open>setBPM\<close> returns.
\<close>

theorem setBPM_restarts_at_one:
  assumes "eventBus e \<noteq> None"
  shows "isRunning (fst (setBPM now v f e)) \<and>
         beatTimerId (fst (setBPM now v f e)) = Some (IntervalTimer (Some (60000 / validateBPM v))) \<and>
         beatCount (fst (setBPM now v f e)) = 1 \<and>
         snd (setBPM now v f e) =
           Inr [(''beat:tick'',
                 \<lparr> tick_beatCount = 1, tick_bpm = Some (validateBPM v),
                   tick_beatInterval = Some (60000 / validateBPM v),
                   tick_audioFeatures = Some f, tick_timestamp = now \<rparr>)]"
proof -
  from assms obtain bus where "eventBus e = Some bus" by auto
  then show ?thesis by (simp add: setBPM_attached)
qed

text \<open>A call with 140 BPM at time 7.\<close>

theorem setBPM_restarts_at_one_witness:
  "eventBus exBeatEngine \<noteq> None \<and>
   isRunning (fst (setBPM 7 (Some 140) exFeatures exBeatEngine)) \<and>
   beatCount (fst (setBPM 7 (Some 140) exFeatures exBeatEngine)) = 1 \<and>
   snd (setBPM 7 (Some 140) exFeatures exBeatEngine) =
     Inr [(''beat:tick'',
           \<lparr> tick_beatCount = 1, tick_bpm = Some 140, tick_beatInterval = Some (3000 / 7),
             tick_audioFeatures = Some exFeatures, tick_timestamp = 7 \<rparr>)]"
proof -
  have bus: "eventBus exBeatEngine \<noteq> None" by (simp add: exBeatEngine_def newBeatEngine_def)
  have v: "validateBPM (Some 140) = 140" by (simp add: validateBPM_def)
  from setBPM_restarts_at_one[OF bus, of 7 "Some 140" exFeatures] bus
  show ?thesis by (simp add: v)
qed


section \<open>Colour extractor: clustering and fallback\<close>


lemma sqrt_less_five: "sqrt x < 5 \<longleftrightarrow> x < 25"
proof -
  have "sqrt 25 = sqrt (5\<^sup>2)" by simp
  then have "sqrt 25 = 5" by (simp only: real_sqrt_abs)
  then show ?thesis using real_sqrt_less_iff[of x 25] by simp
qed

lemma colorDistance_converged:
  "colorDistance c1 c2 < 5 \<longleftrightarrow>
     (rgb_r c1 - rgb_r c2)\<^sup>2 + (rgb_g c1 - rgb_g c2)\<^sup>2 + (rgb_b c1 - rgb_b c2)\<^sup>2 < 25"
  unfolding colorDistance_def sqrt_less_five
  by (metis of_int_less_iff of_int_numeral)

lemma colorDistance_nearer:
  "colorDistance c c1 < colorDistance c c2 \<longleftrightarrow>
     (rgb_r c - rgb_r c1)\<^sup>2 + (rgb_g c - rgb_g c1)\<^sup>2 + (rgb_b c - rgb_b c1)\<^sup>2
       < (rgb_r c - rgb_r c2)\<^sup>2 + (rgb_g c - rgb_g c2)\<^sup>2 + (rgb_b c - rgb_b c2)\<^sup>2"
  unfolding colorDistance_def by (simp only: real_sqrt_less_iff of_int_less_iff)


lemma closest_A: "closestCentroid cA [cA, cA] = 0"
  by (simp add: closestCentroid_def nearer_def colorDistance_nearer)

lemma closest_B: "closestCentroid cB [cA, cA] = 0"
  by (simp add: closestCentroid_def nearer_def colorDistance_nearer)

lemma assign_ex: "assignClusters [cA, cA, cB] [cA, cA] [[], []] = Inr [[cA, cA, cB], []]"
  by (simp add: closest_A closest_B)

lemma update_ex: "map (updateCentroid [cA, cA]) [[cA, cA, cB], []] = [cM, cA]"
  by (simp add: updateCentroid_def mathRound_def cA_def cB_def cM_def)

lemma loop_ex: "kMeansLoop (Suc n) [cA, cA, cB] 2 [cA, cA] = Inr [cM, cA]"
proof -
  have r: "replicate 2 ([]::rgb list) = [[], []]" by (simp add: numeral_2_eq_2)
  have conv: "list_all (\<lambda>(centroid, old). colorDistance centroid old < 5) (zip [cM, cA] [cA, cA])"
    by (simp add: colorDistance_converged) (simp add: cA_def cM_def)
  show ?thesis
    by (simp only: kMeansLoop.simps r assign_ex sum.case Let_def update_ex conv if_True)
qed

lemma seeds_ex: "map (\<lambda>i. [cA, cA, cB] ! (i * (length [cA, cA, cB] div 2))) [0..<2] = [cA, cA]"
proof -
  have l: "length [cA, cA, cB] div 2 = 1" by simp
  have u: "[0..<2] = [0, Suc 0]" by (simp add: upt_rec)
  show ?thesis unfolding l u by simp
qed

text \<open>
  Claim C7 as stated covers every \<open>k\<close> at least the number of distinct colours. The
  list \<open>[cA, cA, cB]\<close> of three vibrant pixels has two distinct colours, so with \<open>k = 2\<close>
  the clustering runs: both seeds are \<open>cA\<close>, every colour falls into the first
  cluster, whose mean \<open>cM\<close> is within the convergence distance, and the result is
  \<open>[cM, cA]\<close>, where \<open>cM\<close> is none of the input colours.
\<close>

theorem kMeansClustering_counterexample:
  "collectColors [(100, 50, 0, 255), (100, 50, 0, 255), (102, 50, 0, 255)] = [cA, cA, cB] \<and>
   card (set [cA, cA, cB]) \<le> 2 \<and>
   kMeansClustering [cA, cA, cB] 2 = Inr [cM, cA] \<and> cM \<notin> set [cA, cA, cB]"
proof -
  have surv: "collectColors [(100, 50, 0, 255), (100, 50, 0, 255), (102, 50, 0, 255)] = [cA, cA, cB]"
    by (simp add: collectColors_def isVibrant_def Let_def cA_def cB_def)
  have k: "kMeansClustering [cA, cA, cB] 2 = kMeansLoop 10 [cA, cA, cB] 2 [cA, cA]"
    unfolding kMeansClustering_def Let_def seeds_ex by simp
  have ten: "(10::nat) = Suc 9" by simp
  have "kMeansClustering [cA, cA, cB] 2 = Inr [cM, cA]"
    unfolding k ten by (rule loop_ex)
  moreover have "card (set [cA, cA, cB]) \<le> 2"
    by (simp add: card_insert_if)
  moreover have "cM \<notin> set [cA, cA, cB]" by (simp add: cA_def cB_def cM_def)
  ultimately show ?thesis using surv by simp
qed

text \<open>
  Claim C7, as the code has it: the test is on the length of the list. For every list
  of colours and every \<open>k\<close> at least its length (duplicates counted), the clustering
  step returns the list itself.
\<close>

theorem kMeansClustering_short_list:
  "length cs \<le> k \<Longrightarrow> kMeansClustering cs k = Inr cs"
  by (simp add: kMeansClustering_def)

text \<open>Two colours and \<open>k = 2\<close>.\<close>

theorem kMeansClustering_short_list_witness:
  "length [cA, cB] \<le> 2 \<and> kMeansClustering [cA, cB] 2 = Inr [cA, cB]"
  using kMeansClustering_short_list[of "[cA, cB]" 2] by simp



lemma closestFrom_bound:
  "\<forall>p \<in> set xs. fst p < n \<Longrightarrow> snd acc < n \<Longrightarrow> snd (closestFrom c xs acc) < n"
proof (induction xs arbitrary: acc)
  case Nil
  then show ?case by simp
next
  case (Cons x xs)
  obtain i cen where x: "x = (i, cen)" by (cases x)
  obtain m j where acc: "acc = (m, j)" by (cases acc)
  from Cons.prems have i: "i < n" and rest: "\<forall>p \<in> set xs. fst p < n" and j: "j < n"
    by (auto simp: x acc)
  show ?case
    unfolding x acc using Cons.IH[OF rest, of "(Some (colorDistance c cen), i)"]
      Cons.IH[OF rest, of "(m, j)"] i j
    by simp
qed

lemma closestCentroid_bound: "centroids \<noteq> [] \<Longrightarrow> closestCentroid c centroids < length centroids"
  unfolding closestCentroid_def
  by (rule closestFrom_bound) (auto simp: in_set_enumerate_eq)

lemma assignClusters_total:
  "centroids \<noteq> [] \<Longrightarrow> length clusters = length centroids \<Longrightarrow>
   \<exists>cl. assignClusters cs centroids clusters = Inr cl \<and> length cl = length centroids"
proof (induction cs arbitrary: clusters)
  case Nil
  then show ?case by simp
next
  case (Cons c cs)
  from closestCentroid_bound[OF Cons.prems(1), of c] Cons.prems(2)
  have b: "closestCentroid c centroids < length clusters" by simp
  let ?cl = "clusters[closestCentroid c centroids := clusters ! closestCentroid c centroids @ [c]]"
  have "length ?cl = length centroids" using Cons.prems(2) by simp
  from Cons.IH[OF Cons.prems(1) this] b show ?case by (simp add: Let_def)
qed

lemma kMeansLoop_total:
  "0 < k \<Longrightarrow> length centroids = k \<Longrightarrow>
   \<exists>res. kMeansLoop n cs k centroids = Inr res \<and> length res = k"
proof (induction n arbitrary: centroids)
  case 0
  then show ?case by simp
next
  case (Suc n)
  from Suc.prems have ne: "centroids \<noteq> []" by auto
  have "length (replicate k ([]::rgb list)) = length centroids" using Suc.prems by simp
  from assignClusters_total[OF ne this, of cs] obtain cl
    where cl: "assignClusters cs centroids (replicate k []) = Inr cl" and len: "length cl = k"
    using Suc.prems by auto
  have "length (map (updateCentroid centroids) cl) = k" using len by simp
  from Suc.IH[OF Suc.prems(1) this] len show ?case
    by (auto simp: cl Let_def)
qed

lemma kMeansClustering_total:
  assumes "0 < k"
  shows "\<exists>res. kMeansClustering cs k = Inr res \<and> (cs \<noteq> [] \<longrightarrow> res \<noteq> [])"
proof (cases "length cs \<le> k")
  case True
  then show ?thesis by (simp add: kMeansClustering_def)
next
  case False
  have "length (map (\<lambda>i. cs ! (i * (length cs div k))) [0..<k]) = k" by simp
  from kMeansLoop_total[OF assms this, of 10 cs] assms False show ?thesis
    by (auto simp: kMeansClustering_def Let_def)
qed

lemma collect_vibrant: "collectColors [exVibrant] = [\<lparr> rgb_r = 200, rgb_g = 50, rgb_b = 50 \<rparr>]"
  by (simp add: collectColors_def isVibrant_def exVibrant_def Let_def)

lemma collect_black: "collectColors [exBlack] = []"
  by (simp add: collectColors_def isVibrant_def exBlack_def Let_def)

text \<open>
  Claim C4 as stated has every processing exception resolve to the fallback palette.
  With colour count 0 and one vibrant pixel the clustering has no cluster to push to
  and throws; a canvas call may throw as well. Both promises are rejected.
\<close>

theorem extractColors_counterexample:
  "extractColors (Loaded (ImageData [exVibrant])) 0 = Inl TypeError \<and>
   extractColors (Loaded (CanvasThrows CanvasError)) 5 = Inl CanvasError"
proof -
  have ten: "(10::nat) = Suc 9" by simp
  have loop: "kMeansLoop (Suc n) [\<lparr> rgb_r = 200, rgb_g = 50, rgb_b = 50 \<rparr>] 0 [] = Inl TypeError" for n
    by (simp add: closestCentroid_def)
  have "kMeansClustering [\<lparr> rgb_r = 200, rgb_g = 50, rgb_b = 50 \<rparr>] 0
          = kMeansLoop 10 [\<lparr> rgb_r = 200, rgb_g = 50, rgb_b = 50 \<rparr>] 0 []"
    by (simp add: kMeansClustering_def)
  then have "kMeansClustering [\<lparr> rgb_r = 200, rgb_g = 50, rgb_b = 50 \<rparr>] 0 = Inl TypeError"
    unfolding ten by (simp only: loop)
  then show ?thesis
    by (simp add: extractColors_def collect_vibrant)
qed

lemma extractStep_rejected:
  "albumArt tr = Some url \<Longrightarrow> extractColors (loadImage url) 5 = Inl err \<Longrightarrow>
     extractStep loadImage tr gt eng = (baseColors gt, True, eng)"
  by (simp add: extractStep_def)

lemma extractStep_without_art:
  "extractStep loadImage (tr\<lparr> albumArt := None \<rparr>) gt eng = (baseColors gt, True, eng)"
  by (simp add: extractStep_def)

lemma finishTheme_track: "finishTheme now (td\<lparr> track := x \<rparr>) = finishTheme now td"
  by (simp add: finishTheme_def feature_def fun_eq_iff)

lemma generateThemeFromTrack_rejected:
  assumes "track td = Some tr" and "albumArt tr = Some url"
    and "extractColors (loadImage url) 5 = Inl err"
  shows "generateThemeFromTrack loadImage now (Some td) st =
         generateThemeFromTrack loadImage now (Some (td\<lparr> track := Some (tr\<lparr> albumArt := None \<rparr>) \<rparr>)) st"
  unfolding generateThemeFromTrack_def
  by (simp add: assms(1) extractStep_rejected[where loadImage = loadImage and url = url, OF assms(2,3)] extractStep_without_art
      finishTheme_track Let_def split: prod.splits option.splits)

text \<open>
  Claim C4, as the code has it. A failed image load and an image without a vibrant
  pixel both resolve to the fixed fallback palette. An exception thrown while the
  loaded image is processed is caught and passed to \<open>reject\<close>: the promise is rejected
  with it. With a colour count of at least 1 the processing of the pixels itself never
  throws, so a decoded image always resolves. The caller \<open>generateThemeFromTrack\<close>
  catches a rejection: \<open>colors\<close> stays the genre's base colours, the engine is left as
  it was, and the call goes on exactly as for the same track without album art.
\<close>

theorem extractColors_fallback:
  "extractColors LoadError k = Inr fallbackPalette \<and>
   (collectColors px = [] \<longrightarrow> extractColors (Loaded (ImageData px)) k = Inr fallbackPalette) \<and>
   extractColors (Loaded (CanvasThrows err)) k = Inl err \<and>
   (0 < k \<longrightarrow> (\<exists>p. extractColors (Loaded (ImageData px)) k = Inr p)) \<and>
   fallbackPalette =
     \<lparr> dominant = \<lparr> rgb_r = 139, rgb_g = 92, rgb_b = 246 \<rparr>,
       colorList = [\<lparr> rgb_r = 139, rgb_g = 92, rgb_b = 246 \<rparr>,
                    \<lparr> rgb_r = 236, rgb_g = 72, rgb_b = 153 \<rparr>,
                    \<lparr> rgb_r = 6, rgb_g = 182, rgb_b = 212 \<rparr>] \<rparr> \<and>
   (track td = Some tr \<and> albumArt tr = Some url \<and> extractColors (loadImage url) 5 = Inl rejection \<longrightarrow>
      extractStep loadImage tr gt eng = (baseColors gt, True, eng) \<and>
      generateThemeFromTrack loadImage now (Some td) st =
        generateThemeFromTrack loadImage now (Some (td\<lparr> track := Some (tr\<lparr> albumArt := None \<rparr>) \<rparr>)) st)"
proof -
  have resolves: "\<exists>p. extractColors (Loaded (ImageData px)) k = Inr p" if k: "0 < k"
  proof (cases "collectColors px = []")
    case True
    then show ?thesis by (simp add: extractColors_def)
  next
    case False
    then have "0 < min k (length (collectColors px))" using k by simp
    from kMeansClustering_total[OF this, of "collectColors px"] False show ?thesis
      by (auto simp: extractColors_def Let_def)
  qed
  have first: "extractColors LoadError k = Inr fallbackPalette \<and>
   (collectColors px = [] \<longrightarrow> extractColors (Loaded (ImageData px)) k = Inr fallbackPalette) \<and>
   extractColors (Loaded (CanvasThrows err)) k = Inl err \<and>
   (0 < k \<longrightarrow> (\<exists>p. extractColors (Loaded (ImageData px)) k = Inr p)) \<and>
   fallbackPalette =
     \<lparr> dominant = \<lparr> rgb_r = 139, rgb_g = 92, rgb_b = 246 \<rparr>,
       colorList = [\<lparr> rgb_r = 139, rgb_g = 92, rgb_b = 246 \<rparr>,
                    \<lparr> rgb_r = 236, rgb_g = 72, rgb_b = 153 \<rparr>,
                    \<lparr> rgb_r = 6, rgb_g = 182, rgb_b = 212 \<rparr>] \<rparr>"
    using resolves by (simp add: extractColors_def fallbackPalette_def)
  have caught: "extractStep loadImage tr gt eng = (baseColors gt, True, eng) \<and>
      generateThemeFromTrack loadImage now (Some td) st =
        generateThemeFromTrack loadImage now (Some (td\<lparr> track := Some (tr\<lparr> albumArt := None \<rparr>) \<rparr>)) st"
    if "track td = Some tr" "albumArt tr = Some url" "extractColors (loadImage url) 5 = Inl rejection"
    using extractStep_rejected[where loadImage = loadImage and url = url, OF that(2,3)]
      generateThemeFromTrack_rejected[where loadImage = loadImage and url = url, OF that] by simp
  from first caught show ?thesis by blast
qed

text \<open>A black pixel, a vibrant pixel and a canvas that throws, with colour count 5; and
  the trance track with album art in a browser whose canvas throws.\<close>

theorem extractColors_fallback_witness:
  "collectColors [exBlack] = [] \<and> (0::nat) < 5 \<and>
   extractColors LoadError 5 = Inr fallbackPalette \<and>
   extractColors (Loaded (ImageData [exBlack])) 5 = Inr fallbackPalette \<and>
   extractColors (Loaded (CanvasThrows CanvasError)) 5 = Inl CanvasError \<and>
   (\<exists>p. extractColors (Loaded (ImageData [exVibrant])) 5 = Inr p) \<and>
   track exArtTrack = Some \<lparr> albumArt = Some ''cover.jpg'' \<rparr> \<and>
   extractColors (brokenCanvas ''cover.jpg'') 5 = Inl CanvasError \<and>
   generateThemeFromTrack brokenCanvas 5 (Some exArtTrack) (GENRE_THEMES, exEngine) =
     generateThemeFromTrack brokenCanvas 5
       (Some (exArtTrack\<lparr> track := Some \<lparr> albumArt = None \<rparr> \<rparr>)) (GENRE_THEMES, exEngine)"
proof -
  have t: "track exArtTrack = Some \<lparr> albumArt = Some ''cover.jpg'' \<rparr>"
    by (simp add: exArtTrack_def)
  have a: "albumArt \<lparr> albumArt = Some ''cover.jpg'' \<rparr> = Some ''cover.jpg''" by simp
  have n: "\<lparr> albumArt = Some ''cover.jpg'' \<rparr>\<lparr> albumArt := None \<rparr> = \<lparr> albumArt = None \<rparr>" by simp
  note i1 = extractColors_fallback[where k = 5 and px = "[exBlack]" and err = CanvasError
      and td = exArtTrack and tr = "\<lparr> albumArt = Some ''cover.jpg'' \<rparr>" and url = "''cover.jpg''"
      and loadImage = brokenCanvas and rejection = CanvasError and now = 5
      and st = "(GENRE_THEMES, exEngine)"]
  note i2 = extractColors_fallback[where k = 5 and px = "[exVibrant]"]
  from i1 have r: "extractColors (brokenCanvas ''cover.jpg'') 5 = Inl CanvasError"
    by (simp add: brokenCanvas_def)
  from i1 t a r have g: "generateThemeFromTrack brokenCanvas 5 (Some exArtTrack) (GENRE_THEMES, exEngine) =
     generateThemeFromTrack brokenCanvas 5
       (Some (exArtTrack\<lparr> track := Some \<lparr> albumArt = None \<rparr> \<rparr>)) (GENRE_THEMES, exEngine)"
    unfolding n by blast
  from i1 collect_black have b: "extractColors (Loaded (ImageData [exBlack])) 5 = Inr fallbackPalette"
    by blast
  from i2 have v: "\<exists>p. extractColors (Loaded (ImageData [exVibrant])) 5 = Inr p"
    by simp
  from i1 have l: "extractColors LoadError 5 = Inr fallbackPalette"
    and c: "extractColors (Loaded (CanvasThrows CanvasError)) 5 = Inl CanvasError"
    by blast+
  from collect_black l b c v t r g show ?thesis
    by simp
qed


section \<open>Theme engine: override, defaults and the genre table\<close>


lemma exEngineHA_fields:
  "syncWithHA exEngineHA" "haLightColors exEngineHA = Some \<lparr> rgb_r = 10, rgb_g = 20, rgb_b = 30 \<rparr>"
  "currentTheme exEngineHA = None" "eventBus (beatEngine exEngineHA) = Some EventBusRef"
  by (simp_all add: exEngineHA_def exLight_def updateFromHomeAssistant_def setSyncWithHomeAssistant_def
      exEngine_def newThemeEngine_def newBeatEngine_def Let_def)

lemma extractStep_frame:
  "extractStep img tr gt eng = (c0, al, e1) \<Longrightarrow>
     syncWithHA e1 = syncWithHA eng \<and> haLightColors e1 = haLightColors eng \<and>
     beatEngine e1 = beatEngine eng"
  by (auto simp: extractStep_def split: option.splits if_splits sum.splits)

lemma extractStep_override:
  "extractStep img tr gt eng = (c0, al, e1) \<Longrightarrow>
     extractStep img tr gt (eng\<lparr> haLightColors := x \<rparr>) = (c0, al, e1\<lparr> haLightColors := x \<rparr>)"
  by (auto simp: extractStep_def split: option.splits if_splits sum.splits)

lemma extractStep_sync:
  "extractStep img tr gt eng = (c0, al, e1) \<Longrightarrow>
     extractStep img tr gt (eng\<lparr> syncWithHA := x \<rparr>) = (c0, al, e1\<lparr> syncWithHA := x \<rparr>)"
  by (auto simp: extractStep_def split: option.splits if_splits sum.splits)

lemma overrideStep_active:
  "syncWithHA eng \<Longrightarrow> haLightColors eng = Some c \<Longrightarrow>
     fst (overrideStep k gt (c0, al) tbl eng) = c0\<lparr> primary := c \<rparr>"
  by (simp add: overrideStep_def)

lemma overrideStep_inactive:
  "\<not> syncWithHA eng \<or> haLightColors eng = None \<Longrightarrow>
     overrideStep k gt (c0, al) tbl eng = (c0, tbl)"
  by (auto simp: overrideStep_def split: option.splits)


lemma finishTheme_colors:
  assumes "finishTheme now d gk gt cols tbl1 e1 = (st, Inr (Some th), ticks)"
  shows "colors_primary (colors th) = rgbToString (primary cols)"
    and "colors_secondary (colors th) = rgbToString (secondary cols)"
    and "colors_accent (colors th) = rgbToString (accent cols)"
  using assms
  by (auto simp: finishTheme_def Let_def buildTheme_def split: prod.splits sum.splits if_splits)

lemma finishTheme_same_beat:
  assumes "finishTheme now d gk gt cols tbl1 e1 = (st, Inr (Some th), ticks)"
    and "beatEngine e1' = beatEngine e1"
  shows "\<exists>st' th'. finishTheme now d gk gt cols' tbl1' e1' = (st', Inr (Some th'), ticks)"
  using assms
  by (auto simp: finishTheme_def Let_def split: prod.splits sum.splits if_splits)

text \<open>
  Claim C2. With Home Assistant sync enabled and an override colour \<open>c\<close> stored, every
  theme that \<open>generateThemeFromTrack\<close> produces has \<open>colors.primary\<close> equal to the text
  of \<open>c\<close>, whatever the table, the track, the album art and the extraction give; and
  the same call without the override (override cleared, or sync switched off) also
  produces a theme, with the same \<open>colors.secondary\<close> and \<open>colors.accent\<close>.
\<close>

theorem override_replaces_primary_only:
  assumes sync: "syncWithHA eng" and ha: "haLightColors eng = Some c"
    and gen: "generateThemeFromTrack img now td (tbl, eng) = (st, Inr (Some th), ticks)"
  shows "colors_primary (colors th) = rgbToString c \<and>
         (\<exists>st' th' ticks'.
            generateThemeFromTrack img now td (tbl, eng\<lparr> haLightColors := None \<rparr>)
              = (st', Inr (Some th'), ticks') \<and>
            colors_secondary (colors th) = colors_secondary (colors th') \<and>
            colors_accent (colors th) = colors_accent (colors th')) \<and>
         (\<exists>st' th' ticks'.
            generateThemeFromTrack img now td (tbl, eng\<lparr> syncWithHA := False \<rparr>)
              = (st', Inr (Some th'), ticks') \<and>
            colors_secondary (colors th) = colors_secondary (colors th') \<and>
            colors_accent (colors th) = colors_accent (colors th'))"
proof -
  from gen obtain d where td: "td = Some d"
    by (cases td) (auto simp: generateThemeFromTrack_def)
  from gen td obtain tr where tr: "track d = Some tr"
    by (cases "track d") (auto simp: generateThemeFromTrack_def)
  define gk where "gk = detectGenreTheme (case genres d of None \<Rightarrow> [] | Some gs \<Rightarrow> gs)"
  from gen td tr obtain ek gt where gt: "lookupGenre tbl gk = Some (ek, gt)"
    by (cases "lookupGenre tbl gk") (auto simp: generateThemeFromTrack_def Let_def gk_def)
  obtain c0 al e1 where ex: "extractStep img tr gt eng = (c0, al, e1)"
    by (cases "extractStep img tr gt eng") auto
  note fr = extractStep_frame[OF ex]
  have s1: "syncWithHA e1" and h1: "haLightColors e1 = Some c" using fr sync ha by simp_all
  obtain cols tbl1 where ov: "overrideStep ek gt (c0, al) tbl e1 = (cols, tbl1)"
    by (cases "overrideStep ek gt (c0, al) tbl e1") auto
  have cols: "cols = c0\<lparr> primary := c \<rparr>"
    using overrideStep_active[OF s1 h1, of ek gt c0 al tbl] ov by simp
  have fin: "finishTheme now d gk gt cols tbl1 e1 = (st, Inr (Some th), ticks)"
    using gen unfolding generateThemeFromTrack_def td
    by (simp add: tr Let_def gk_def[symmetric] gt ex ov)
  note thc = finishTheme_colors[OF fin]
  have p: "colors_primary (colors th) = rgbToString c"
    using thc(1) by (simp add: cols)
  have other: "\<exists>st' th' ticks'.
            generateThemeFromTrack img now td (tbl, eng') = (st', Inr (Some th'), ticks') \<and>
            colors_secondary (colors th) = colors_secondary (colors th') \<and>
            colors_accent (colors th) = colors_accent (colors th')"
    if ex': "extractStep img tr gt eng' = (c0, al, e1')" and be: "beatEngine e1' = beatEngine e1"
      and off: "\<not> syncWithHA e1' \<or> haLightColors e1' = None" for eng' e1'
  proof -
    have ov': "overrideStep ek gt (c0, al) tbl e1' = (c0, tbl)"
      using off by (rule overrideStep_inactive)
    from finishTheme_same_beat[OF fin be, of c0 tbl] obtain st' th'
      where fin': "finishTheme now d gk gt c0 tbl e1' = (st', Inr (Some th'), ticks)" by blast
    have gen': "generateThemeFromTrack img now td (tbl, eng') = (st', Inr (Some th'), ticks)"
      unfolding generateThemeFromTrack_def td
      by (simp add: tr Let_def gk_def[symmetric] gt ex' ov' fin')
    from finishTheme_colors[OF fin'] thc gen' show ?thesis
      by (auto simp: cols)
  qed
  have a: "\<exists>st' th' ticks'.
            generateThemeFromTrack img now td (tbl, eng\<lparr> haLightColors := None \<rparr>)
              = (st', Inr (Some th'), ticks') \<and>
            colors_secondary (colors th) = colors_secondary (colors th') \<and>
            colors_accent (colors th) = colors_accent (colors th')"
    by (rule other[OF extractStep_override[OF ex]]) simp_all
  have b: "\<exists>st' th' ticks'.
            generateThemeFromTrack img now td (tbl, eng\<lparr> syncWithHA := False \<rparr>)
              = (st', Inr (Some th'), ticks') \<and>
            colors_secondary (colors th) = colors_secondary (colors th') \<and>
            colors_accent (colors th) = colors_accent (colors th')"
    by (rule other[OF extractStep_sync[OF ex]]) simp_all
  from p a b show ?thesis by blast
qed



lemma exEngine_fields:
  "\<not> syncWithHA exEngine" "haLightColors exEngine = None"
  "currentTheme exEngine = None" "eventBus (beatEngine exEngine) = Some EventBusRef"
  by (simp_all add: exEngine_def newThemeEngine_def newBeatEngine_def)

lemma lookup_default: "lookupGenre GENRE_THEMES ''default'' =
  Some (''default'', mkGenre ''Default'' (139, 92, 246) (236, 72, 153) (6, 182, 212) ''20px'' ''1s'' ''10px'')"
  by (simp add: lookupGenre_def GENRE_THEMES_def)

lemma exTrack_theme:
  "\<exists>st th ticks. generateThemeFromTrack noImages 5 (Some exTrack) (GENRE_THEMES, exEngine)
      = (st, Inr (Some th), ticks) \<and> theme_audioFeatures th = \<lparr> energy = 1 / 2, valence = 1 / 2, danceability = 1 / 2 \<rparr>
      \<and> currentTheme (snd st) = Some th"
  by (simp add: generateThemeFromTrack_def exTrack_def lookup_default Let_def
      extractStep_def overrideStep_def exEngine_fields orDefault_def feature_def finishTheme_def
      setBPM_attached[OF exEngine_fields(4)] buildTheme_def)

text \<open>
  Claim C8 at the track \<open>exTrack\<close>, whose energy is present and equal to 0: the theme
  produced has energy \<open>1/2\<close>, the default, because \<^verbatim>\<open>features?.energy || 0.5\<close> takes
  the default for every falsy value.
\<close>

theorem generateThemeFromTrack_zero_energy:
  "feature features_energy exTrack = Some 0 \<and>
   (\<exists>st th ticks.
      generateThemeFromTrack noImages 5 (Some exTrack) (GENRE_THEMES, exEngine) = (st, Inr (Some th), ticks) \<and>
      energy (theme_audioFeatures th) = 1 / 2)"
  using exTrack_theme by (auto simp: feature_def exTrack_def)

lemma exEngineThemed_theme: "currentTheme exEngineThemed \<noteq> None"
  using exTrack_theme by (auto simp: exEngineThemed_def)

text \<open>
  Claim C9 as stated has the function return a boolean, true exactly when a theme
  exists. For a light state without colour the function returns \<^verbatim>\<open>undefined\<close>, both
  on an engine that has a current theme and on one that has none.
\<close>

theorem updateFromHomeAssistant_counterexample:
  "currentTheme exEngineThemed \<noteq> None \<and>
   snd (updateFromHomeAssistant (Some \<lparr> rgb_color = None \<rparr>) exEngineThemed) = Undefined \<and>
   currentTheme exEngine = None \<and>
   snd (updateFromHomeAssistant (Some \<lparr> rgb_color = None \<rparr>) exEngine) = Undefined"
  using exEngineThemed_theme by (simp add: updateFromHomeAssistant_def exEngine_fields)


text \<open>
  Claim C9, as the code has it. When the light state carries a colour, the override
  is set to it and the result is the boolean saying whether a current theme exists.
  When the light state or its colour is absent, the override is cleared and the
  result is \<^verbatim>\<open>undefined\<close>. The current theme is never touched.
\<close>

theorem updateFromHomeAssistant_result:
  "snd (updateFromHomeAssistant ls eng) =
     (case (case ls of None \<Rightarrow> None | Some l \<Rightarrow> rgb_color l) of
        None \<Rightarrow> Undefined
      | Some c \<Rightarrow> Boolean (currentTheme eng \<noteq> None)) \<and>
   haLightColors (fst (updateFromHomeAssistant ls eng)) =
     (case (case ls of None \<Rightarrow> None | Some l \<Rightarrow> rgb_color l) of
        None \<Rightarrow> None
      | Some (r, g, b) \<Rightarrow> Some \<lparr> rgb_r = r, rgb_g = g, rgb_b = b \<rparr>) \<and>
   currentTheme (fst (updateFromHomeAssistant ls eng)) = currentTheme eng"
  by (auto simp: updateFromHomeAssistant_def Let_def split: option.splits prod.splits)


lemma exTrackHA_result:
  "\<exists>eng' th ticks.
     generateThemeFromTrack noImages 5 (Some exTrack) (GENRE_THEMES, exEngineHA)
       = ((GENRE_THEMES(''default'' \<mapsto>
             mkGenre ''Default'' (10, 20, 30) (236, 72, 153) (6, 182, 212) ''20px'' ''1s'' ''10px''), eng'),
          Inr (Some th), ticks) \<and>
     eventBus (beatEngine eng') = Some EventBusRef"
  by (simp add: generateThemeFromTrack_def exTrack_def lookup_default Let_def
      extractStep_def overrideStep_def exEngineHA_fields orDefault_def feature_def finishTheme_def
      setBPM_attached[OF exEngineHA_fields(4)] buildTheme_def mkGenre_def)

lemma after_mutation:
  assumes "eventBus (beatEngine e) = Some bus"
  shows "\<exists>st th ticks.
     generateThemeFromTrack noImages t (Some exTrack)
       (GENRE_THEMES(''default'' \<mapsto>
          mkGenre ''Default'' (10, 20, 30) (236, 72, 153) (6, 182, 212) ''20px'' ''1s'' ''10px''),
        setSyncWithHomeAssistant False e)
       = (st, Inr (Some th), ticks) \<and>
     source th = ''spotify'' \<and>
     colors_primary (colors th) = rgbToString \<lparr> rgb_r = 10, rgb_g = 20, rgb_b = 30 \<rparr>"
  using assms
  by (simp add: generateThemeFromTrack_def exTrack_def lookupGenre_def Let_def
      extractStep_def overrideStep_def orDefault_def feature_def finishTheme_def
      setSyncWithHomeAssistant_def setBPM_attached buildTheme_def mkGenre_def split: option.splits)

text \<open>
  Claim C3 at the track \<open>exTrack\<close> (no album art) on the engine with sync enabled and
  the override \<open>(10, 20, 30)\<close>: \<open>colors\<close> is still the reference to the table entry's
  \<open>baseColors\<close> when the override is assigned, so the call changes the primary colour
  of the \<open>default\<close> entry of the table from \<open>(139, 92, 246)\<close> to \<open>(10, 20, 30)\<close>. A later
  call with sync switched off then produces a theme whose source is \<open>spotify\<close> and whose
  primary colour is still the old override.
\<close>

theorem genre_table_overwritten:
  "\<exists>tbl' eng' th ticks.
     generateThemeFromTrack noImages 5 (Some exTrack) (GENRE_THEMES, exEngineHA)
       = ((tbl', eng'), Inr (Some th), ticks) \<and>
     map_option (\<lambda>g. primary (baseColors g)) (GENRE_THEMES ''default'')
       = Some \<lparr> rgb_r = 139, rgb_g = 92, rgb_b = 246 \<rparr> \<and>
     map_option (\<lambda>g. primary (baseColors g)) (tbl' ''default'')
       = Some \<lparr> rgb_r = 10, rgb_g = 20, rgb_b = 30 \<rparr> \<and>
     (\<exists>st2 th2 ticks2.
        generateThemeFromTrack noImages 9 (Some exTrack) (tbl', setSyncWithHomeAssistant False eng')
          = (st2, Inr (Some th2), ticks2) \<and>
        source th2 = ''spotify'' \<and>
        colors_primary (colors th2) = rgbToString \<lparr> rgb_r = 10, rgb_g = 20, rgb_b = 30 \<rparr>)"
proof -
  from exTrackHA_result obtain eng' th ticks where
    r: "generateThemeFromTrack noImages 5 (Some exTrack) (GENRE_THEMES, exEngineHA)
       = ((GENRE_THEMES(''default'' \<mapsto>
             mkGenre ''Default'' (10, 20, 30) (236, 72, 153) (6, 182, 212) ''20px'' ''1s'' ''10px''), eng'),
          Inr (Some th), ticks)"
    and bus: "eventBus (beatEngine eng') = Some EventBusRef" by blast
  have before: "map_option (\<lambda>g. primary (baseColors g)) (GENRE_THEMES ''default'')
       = Some \<lparr> rgb_r = 139, rgb_g = 92, rgb_b = 246 \<rparr>"
    by (simp add: GENRE_THEMES_def mkGenre_def)
  have after: "map_option (\<lambda>g. primary (baseColors g))
       ((GENRE_THEMES(''default'' \<mapsto>
             mkGenre ''Default'' (10, 20, 30) (236, 72, 153) (6, 182, 212) ''20px'' ''1s'' ''10px'')) ''default'')
       = Some \<lparr> rgb_r = 10, rgb_g = 20, rgb_b = 30 \<rparr>"
    by (simp add: mkGenre_def)
  from r before after after_mutation[OF bus, of 9] show ?thesis by blast
qed

lemma rgbToString_override: "rgbToString \<lparr> rgb_r = 10, rgb_g = 20, rgb_b = 30 \<rparr> = ''rgb(10, 20, 30)''"
  by (simp add: rgbToString_def numberToString_def showNat.simps digit_char_def)

lemma detect_trance: "detectGenreTheme [''Trance''] = ''trance''"
  by (simp add: toLowerCase_def lowerChar_def trim_def isSpace_def GENRE_MAP_def)

lemma extract_one_pixel:
  "extractColors (Loaded (ImageData [exVibrant])) 5 =
     Inr \<lparr> dominant = \<lparr> rgb_r = 200, rgb_g = 50, rgb_b = 50 \<rparr>,
           colorList = [\<lparr> rgb_r = 200, rgb_g = 50, rgb_b = 50 \<rparr>] \<rparr>"
  by (simp add: extractColors_def collect_vibrant kMeansClustering_def)

lemma exArtTrack_result:
  "\<exists>st th ticks.
     generateThemeFromTrack onePixelImages 5 (Some exArtTrack) (GENRE_THEMES, exEngineHA)
       = (st, Inr (Some th), ticks)"
  by (simp add: generateThemeFromTrack_def exArtTrack_def detect_trance lookupGenre_def GENRE_THEMES_def
      Let_def extractStep_def onePixelImages_def extract_one_pixel overrideStep_def exEngineHA_fields
      finishTheme_def setBPM_attached[OF exEngineHA_fields(4)] orDefault_def feature_def
      del: detectGenreTheme.simps)

text \<open>The trance track with album art, on the engine with the override \<open>(10, 20, 30)\<close>.\<close>

theorem override_replaces_primary_only_witness:
  "syncWithHA exEngineHA \<and>
   haLightColors exEngineHA = Some \<lparr> rgb_r = 10, rgb_g = 20, rgb_b = 30 \<rparr> \<and>
   (\<exists>st th ticks.
      generateThemeFromTrack onePixelImages 5 (Some exArtTrack) (GENRE_THEMES, exEngineHA)
        = (st, Inr (Some th), ticks) \<and>
      colors_primary (colors th) = ''rgb(10, 20, 30)'' \<and>
      (\<exists>st' th' ticks'.
         generateThemeFromTrack onePixelImages 5 (Some exArtTrack)
           (GENRE_THEMES, exEngineHA\<lparr> haLightColors := None \<rparr>) = (st', Inr (Some th'), ticks') \<and>
         colors_secondary (colors th) = colors_secondary (colors th') \<and>
         colors_accent (colors th) = colors_accent (colors th')))"
proof -
  from exArtTrack_result obtain st th ticks where
    g: "generateThemeFromTrack onePixelImages 5 (Some exArtTrack) (GENRE_THEMES, exEngineHA)
        = (st, Inr (Some th), ticks)" by blast
  from override_replaces_primary_only[OF exEngineHA_fields(1) exEngineHA_fields(2) g]
  show ?thesis
    using g exEngineHA_fields(1,2) by (simp only: rgbToString_override) blast
qed


end
